theory Spec2Isabelle
  imports Complex_Main
begin

section \<open>Strings: the JavaScript string operations the scraper uses\<close>

text \<open>
  Strings are modelled as \<open>string\<close> (lists of 8-bit characters), so the model covers
  Latin-1 text. The white-space class is what \<open>\s\<close> and \<open>trim()\<close> recognise in that range.
\<close>

definition isSpace :: "char \<Rightarrow> bool" where
  "isSpace c = (c \<in> set [CHR 0x20, CHR 0x09, CHR 0x0A, CHR 0x0B, CHR 0x0C, CHR 0x0D, CHR 0xA0])"

definition isUpper :: "char \<Rightarrow> bool" where
  "isUpper c = (c \<in> set ''ABCDEFGHIJKLMNOPQRSTUVWXYZ'')"

definition isLower :: "char \<Rightarrow> bool" where
  "isLower c = (c \<in> set ''abcdefghijklmnopqrstuvwxyz'')"

definition isDigit :: "char \<Rightarrow> bool" where
  "isDigit c = (c \<in> set ''0123456789'')"

text \<open>The character class \<open>[A-F]\<close> and the class \<open>[+-]\<close> of the grade-letter patterns.\<close>

definition isGradeChar :: "char \<Rightarrow> bool" where
  "isGradeChar c = (c \<in> set ''ABCDEF'')"

definition isSign :: "char \<Rightarrow> bool" where
  "isSign c = (c = CHR ''+'' \<or> c = CHR ''-'')"

definition lowerChar :: "char \<Rightarrow> char" where
  "lowerChar c =
     (case map_of (zip ''ABCDEFGHIJKLMNOPQRSTUVWXYZ'' ''abcdefghijklmnopqrstuvwxyz'') c of
        Some d \<Rightarrow> d | None \<Rightarrow> c)"

definition upperChar :: "char \<Rightarrow> char" where
  "upperChar c =
     (case map_of (zip ''abcdefghijklmnopqrstuvwxyz'' ''ABCDEFGHIJKLMNOPQRSTUVWXYZ'') c of
        Some d \<Rightarrow> d | None \<Rightarrow> c)"

definition toLowerCase :: "string \<Rightarrow> string" where
  "toLowerCase s = map lowerChar s"

definition toUpperCase :: "string \<Rightarrow> string" where
  "toUpperCase s = map upperChar s"

definition trim :: "string \<Rightarrow> string" where
  "trim s = rev (dropWhile isSpace (rev (dropWhile isSpace s)))"

definition startsWith :: "string \<Rightarrow> string \<Rightarrow> bool" where
  "startsWith s p = (take (length p) s = p)"

text \<open>\<open>s.includes(sub)\<close>: \<open>sub\<close> occurs somewhere in \<open>s\<close>.\<close>

fun str_includes :: "string \<Rightarrow> string \<Rightarrow> bool" where
  "str_includes [] sub = (sub = [])"
| "str_includes (c # cs) sub = (startsWith (c # cs) sub \<or> str_includes cs sub)"

text \<open>\<open>s.replace(/\s+/g, ' ')\<close>: every maximal run of white space becomes one blank.\<close>

fun collapseFrom :: "bool \<Rightarrow> string \<Rightarrow> string" where
  "collapseFrom inRun [] = []"
| "collapseFrom inRun (c # cs) =
     (if isSpace c then (if inRun then collapseFrom True cs else CHR '' '' # collapseFrom True cs)
      else c # collapseFrom False cs)"

definition collapseSpaces :: "string \<Rightarrow> string" where
  "collapseSpaces s = collapseFrom False s"

text \<open>\<open>s.replace(/[\s]/g, '')\<close>: all white space removed.\<close>

definition stripSpaces :: "string \<Rightarrow> string" where
  "stripSpaces s = filter (\<lambda>c. \<not> isSpace c) s"

subsection \<open>The regular expressions, each as the function it computes\<close>

text \<open>
  \<open>s.match(/([A-F][+-]?)/)\<close>: the leftmost character of \<open>A\<close>..\<open>F\<close>, together with a
  directly following sign when there is one; \<open>None\<close> when the pattern does not match.
\<close>

fun matchGradeAnywhere :: "string \<Rightarrow> string option" where
  "matchGradeAnywhere [] = None"
| "matchGradeAnywhere [c] = (if isGradeChar c then Some [c] else None)"
| "matchGradeAnywhere (c # d # cs) =
     (if isGradeChar c then (if isSign d then Some [c, d] else Some [c])
      else matchGradeAnywhere (d # cs))"

text \<open>\<open>s.match(/^([A-F][+-]?)$/)\<close>: the whole string is a grade letter with an optional sign.\<close>

fun matchGradeExact :: "string \<Rightarrow> string option" where
  "matchGradeExact [c] = (if isGradeChar c then Some [c] else None)"
| "matchGradeExact [c, d] = (if isGradeChar c \<and> isSign d then Some [c, d] else None)"
| "matchGradeExact _ = None"

text \<open>\<open>/^(Q[1-4]|Grade|Period|Teacher|Total|Average)$/i\<close>: the labels that are not course names.\<close>

definition isNonCourseLabel :: "string \<Rightarrow> bool" where
  "isNonCourseLabel s =
     (toLowerCase s \<in> set [''q1'', ''q2'', ''q3'', ''q4'', ''grade'', ''period'', ''teacher'',
                           ''total'', ''average''])"

text \<open>\<open>/^[A-Z][A-Za-z\s\d]+$/\<close>, the course-name test of the academic-history strategy.\<close>

fun matchHistoryCourse :: "string \<Rightarrow> bool" where
  "matchHistoryCourse [] = False"
| "matchHistoryCourse (c # cs) =
     (isUpper c \<and> cs \<noteq> [] \<and> list_all (\<lambda>x. isUpper x \<or> isLower x \<or> isSpace x \<or> isDigit x) cs)"

text \<open>\<open>/^[A-Z][A-Z\s\d]+$/\<close>, the first row of a course-info block.\<close>

fun matchCourseNameRow :: "string \<Rightarrow> bool" where
  "matchCourseNameRow [] = False"
| "matchCourseNameRow (c # cs) =
     (isUpper c \<and> cs \<noteq> [] \<and> list_all (\<lambda>x. isUpper x \<or> isSpace x \<or> isDigit x) cs)"

text \<open>\<open>/^[A-Z][A-Z\s]+$/\<close>, the third (teacher) row of a course-info block.\<close>

fun matchTeacherRow :: "string \<Rightarrow> bool" where
  "matchTeacherRow [] = False"
| "matchTeacherRow (c # cs) =
     (isUpper c \<and> cs \<noteq> [] \<and> list_all (\<lambda>x. isUpper x \<or> isSpace x) cs)"

text \<open>
  \<open>/Period\s*\d+/i\<close>, the second row of a course-info block: somewhere the word
  \<open>period\<close> in any letter case, then any white space, then a digit.
\<close>

fun matchPeriodRow :: "string \<Rightarrow> bool" where
  "matchPeriodRow [] = False"
| "matchPeriodRow (c # cs) =
     ((startsWith (toLowerCase (c # cs)) ''period'' \<and>
         (case dropWhile isSpace (drop 6 (c # cs)) of [] \<Rightarrow> False | d # _ \<Rightarrow> isDigit d))
      \<or> matchPeriodRow cs)"

section \<open>The page as the extraction code observes it\<close>

text \<open>
  The in-page script reads the document through \<open>querySelectorAll\<close>, \<open>textContent\<close>,
  \<open>getBoundingClientRect\<close> and \<open>getComputedStyle\<close>. Each element is modelled by what these
  calls return for it. Pixel coordinates, which the browser reports as floating-point
  numbers, are modelled as exact rationals.
\<close>

datatype tag = TH | TD

record cell =
  tagName :: tag
  textContent :: string
  rectLeft :: rat
  rectTop :: rat
  rectWidth :: rat
  backgroundColor :: string

record row =
  rowTextContent :: string
  cells :: "cell list"

record table =
  rows :: "row list"
  tableTop :: rat

text \<open>
  \<open>tables\<close> is \<open>document.querySelectorAll('table')\<close>, \<open>tds\<close> is
  \<open>document.querySelectorAll('td')\<close> and \<open>bodyText\<close> is \<open>document.body.innerText\<close>.
\<close>

record document =
  bodyText :: string
  tables :: "table list"
  tds :: "cell list"

definition tdCells :: "row \<Rightarrow> cell list" where
  "tdCells r = filter (\<lambda>c. tagName c = TD) (cells r)"

text \<open>\<open>table.querySelector('tr')\<close> with \<open>headerRow?.textContent || ''\<close>.\<close>

definition headerText :: "table \<Rightarrow> string" where
  "headerText t = (case rows t of [] \<Rightarrow> [] | r # _ \<Rightarrow> rowTextContent r)"

definition headerCells :: "table \<Rightarrow> cell list" where
  "headerCells t = (case rows t of [] \<Rightarrow> [] | r # _ \<Rightarrow> cells r)"

definition hasQuarterHeaders :: "table \<Rightarrow> bool" where
  "hasQuarterHeaders t = (str_includes (headerText t) ''Q1'' \<and> str_includes (headerText t) ''Q2'')"

section \<open>The result records\<close>

record QuarterGrade =
  quarter :: string
  letter :: "string option"
  isCurrent :: bool

record SkywardCourse =
  name :: string
  period :: string
  teacher :: string
  grades :: "QuarterGrade list"

record GradesData =
  courses :: "SkywardCourse list"
  missingAssignments :: "(string \<times> string \<times> string \<times> string) list"
  studentName :: string
  school :: string

definition quarters :: "string list" where
  "quarters = [''Q1'', ''Q2'', ''Q3'', ''Q4'']"

text \<open>
  A record is well shaped when its grades carry the four quarter labels in order and at
  least one of them is marked current.
\<close>

definition shaped :: "SkywardCourse \<Rightarrow> bool" where
  "shaped c = (map quarter (grades c) = quarters \<and> list_ex isCurrent (grades c))"

section \<open>Strategy 1: a table with labelled quarter columns\<close>

text \<open>
  One step of \<open>headerCells.forEach((cell, idx) => ...)\<close>: the state is the map
  \<open>quarterColumns\<close> and the variable \<open>courseColumn\<close> (initially \<open>-1\<close>).
\<close>

definition scanHeaderCell ::
  "(string \<rightharpoonup> nat) \<times> int \<Rightarrow> nat \<times> cell \<Rightarrow> (string \<rightharpoonup> nat) \<times> int" where
  "scanHeaderCell st ic =
     (let idx = fst ic; txt = trim (textContent (snd ic));
          qc = fst st;
          qc = (if str_includes txt ''Q1'' then qc(''Q1'' \<mapsto> idx) else qc);
          qc = (if str_includes txt ''Q2'' then qc(''Q2'' \<mapsto> idx) else qc);
          qc = (if str_includes txt ''Q3'' then qc(''Q3'' \<mapsto> idx) else qc);
          qc = (if str_includes txt ''Q4'' then qc(''Q4'' \<mapsto> idx) else qc);
          cc = (if str_includes (toLowerCase txt) ''course'' \<or> str_includes (toLowerCase txt) ''class''
                then int idx else snd st)
      in (qc, cc))"

definition scanHeader :: "cell list \<Rightarrow> (string \<rightharpoonup> nat) \<times> int" where
  "scanHeader hs = foldl scanHeaderCell (Map.empty, -1) (enumerate 0 hs)"

text \<open>\<open>cells[i]?.textContent\<close> with the empty string standing in for a missing cell.\<close>

definition cellTextAt :: "cell list \<Rightarrow> nat \<Rightarrow> string" where
  "cellTextAt cs i = (if i < length cs then textContent (cs ! i) else [])"

definition quarterLetter :: "(string \<rightharpoonup> nat) \<Rightarrow> cell list \<Rightarrow> string \<Rightarrow> string option" where
  "quarterLetter qc cs q =
     (case qc q of
        None \<Rightarrow> None
      | Some colIdx \<Rightarrow>
          if colIdx < length cs
          then matchGradeAnywhere (stripSpaces (trim (cellTextAt cs colIdx)))
          else None)"

definition labelledGrades :: "(string \<rightharpoonup> nat) \<Rightarrow> cell list \<Rightarrow> QuarterGrade list" where
  "labelledGrades qc cs =
     map (\<lambda>q. \<lparr>quarter = q, letter = quarterLetter qc cs q, isCurrent = (q = ''Q3'')\<rparr>) quarters"

text \<open>The body of the loop over the rows \<open>1 ..\<close> of a quarter table; \<open>None\<close> is \<open>continue\<close>.\<close>

definition labelledRow :: "(string \<rightharpoonup> nat) \<Rightarrow> int \<Rightarrow> row \<Rightarrow> SkywardCourse option" where
  "labelledRow qc courseColumn r =
     (let cs = cells r in
      if length cs < 2 then None
      else
        let courseIdx = (if courseColumn \<ge> 0 then nat courseColumn else 0);
            courseName = collapseSpaces (trim (cellTextAt cs courseIdx))
        in if courseName = [] \<or> length courseName < 3 \<or> isNonCourseLabel courseName then None
           else
             let gs = labelledGrades qc cs
             in if list_ex (\<lambda>g. letter g \<noteq> None) gs
                then Some \<lparr>name = courseName, period = [], teacher = [], grades = gs\<rparr>
                else None)"

definition labelledTable :: "table \<Rightarrow> SkywardCourse list" where
  "labelledTable t =
     (if hasQuarterHeaders t
      then (let st = scanHeader (headerCells t)
            in List.map_filter (labelledRow (fst st) (snd st)) (tl (rows t)))
      else [])"

definition strategy1 :: "document \<Rightarrow> SkywardCourse list" where
  "strategy1 d = concat (map labelledTable (tables d))"

text \<open>A cell whose trimmed text is a grade letter, \<open>/^[A-F][+-]?$/\<close>.\<close>

definition isGradeLetterCell :: "cell \<Rightarrow> bool" where
  "isGradeLetterCell c = (matchGradeExact (trim (textContent c)) \<noteq> None)"

section \<open>Strategy 2: academic-history rows\<close>

text \<open>The inner loop over the cells \<open>1 ..\<close> of a row: the first exact grade letter, if any.\<close>

fun firstExactGrade :: "cell list \<Rightarrow> string option" where
  "firstExactGrade [] = None"
| "firstExactGrade (c # cs) =
     (case matchGradeExact (trim (textContent c)) of
        Some g \<Rightarrow> Some g
      | None \<Rightarrow> firstExactGrade cs)"

definition historyRow :: "row \<Rightarrow> SkywardCourse option" where
  "historyRow r =
     (case tdCells r of
        c0 # c1 # rest \<Rightarrow>
          (let firstCell = trim (textContent c0) in
           if matchHistoryCourse firstCell \<and> length firstCell > 5
           then (case firstExactGrade (c1 # rest) of
                   None \<Rightarrow> None
                 | Some g \<Rightarrow>
                     Some \<lparr>name = firstCell, period = [], teacher = [],
                           grades = [\<lparr>quarter = ''Q1'', letter = None, isCurrent = False\<rparr>,
                                     \<lparr>quarter = ''Q2'', letter = None, isCurrent = False\<rparr>,
                                     \<lparr>quarter = ''Q3'', letter = Some g, isCurrent = True\<rparr>,
                                     \<lparr>quarter = ''Q4'', letter = None, isCurrent = False\<rparr>]\<rparr>)
           else None)
      | _ \<Rightarrow> None)"

definition strategy2 :: "document \<Rightarrow> SkywardCourse list" where
  "strategy2 d = concat (map (\<lambda>t. List.map_filter historyRow (rows t)) (tables d))"

section \<open>Strategy 3: reconstruction from screen positions\<close>

definition centerOf :: "cell \<Rightarrow> rat" where
  "centerOf c = rectLeft c + rectWidth c / 2"

text \<open>One step of the \<open>forEach\<close> that records the horizontal centre of each quarter header.\<close>

definition scanHeaderX :: "(string \<rightharpoonup> rat) \<Rightarrow> cell \<Rightarrow> (string \<rightharpoonup> rat)" where
  "scanHeaderX qx c =
     (let txt = trim (textContent c);
          qx = (if str_includes txt ''Q1'' then qx(''Q1'' \<mapsto> centerOf c) else qx);
          qx = (if str_includes txt ''Q2'' then qx(''Q2'' \<mapsto> centerOf c) else qx);
          qx = (if str_includes txt ''Q3'' then qx(''Q3'' \<mapsto> centerOf c) else qx);
          qx = (if str_includes txt ''Q4'' then qx(''Q4'' \<mapsto> centerOf c) else qx)
      in qx)"

text \<open>The loop stops (\<open>break\<close>) at the first table whose header row names Q1 and Q2.\<close>

definition quarterXPositions :: "document \<Rightarrow> (string \<rightharpoonup> rat)" where
  "quarterXPositions d =
     (case List.find hasQuarterHeaders (tables d) of
        None \<Rightarrow> Map.empty
      | Some t \<Rightarrow> foldl scanHeaderX Map.empty (headerCells t))"

record gradeCell =
  cellText :: string
  element :: cell
  cellY :: rat
  cellX :: rat
  centerX :: rat

definition gradeCellOf :: "cell \<Rightarrow> gradeCell option" where
  "gradeCellOf c =
     (let t = stripSpaces (trim (textContent c)) in
      if matchGradeExact t \<noteq> None
      then Some \<lparr>cellText = toUpperCase t, element = c, cellY = rectTop c, cellX = rectLeft c,
                 centerX = centerOf c\<rparr>
      else None)"

definition allGradeCells :: "document \<Rightarrow> gradeCell list" where
  "allGradeCells d = List.map_filter gradeCellOf (tds d)"

text \<open>An entry of \<open>courseData\<close>: a three-row table holding name, period and teacher.\<close>

record courseBlock =
  blockName :: string
  blockPeriod :: string
  blockTeacher :: string
  blockY :: rat

definition courseBlockOf :: "table \<Rightarrow> courseBlock option" where
  "courseBlockOf t =
     (case rows t of
        [r0, r1, r2] \<Rightarrow>
          (let firstRowText = trim (rowTextContent r0);
               secondRowText = trim (rowTextContent r1);
               thirdRowText = trim (rowTextContent r2)
           in if matchCourseNameRow firstRowText \<and> matchPeriodRow secondRowText \<and>
                 matchTeacherRow thirdRowText
              then Some \<lparr>blockName = firstRowText, blockPeriod = secondRowText,
                         blockTeacher = thirdRowText, blockY = tableTop t\<rparr>
              else None)
      | _ \<Rightarrow> None)"

definition courseData :: "document \<Rightarrow> courseBlock list" where
  "courseData d = List.map_filter courseBlockOf (tables d)"

text \<open>The two tolerances of the position join, as the inline tests of the code.\<close>

definition sameRow :: "rat \<Rightarrow> gradeCell \<Rightarrow> bool" where
  "sameRow courseY c = (\<bar>cellY c - courseY\<bar> < 40)"

definition aligned :: "rat \<Rightarrow> gradeCell \<Rightarrow> bool" where
  "aligned quarterX c = (\<bar>centerX c - quarterX\<bar> < 30)"

definition rowCellsOf :: "rat \<Rightarrow> gradeCell list \<Rightarrow> gradeCell list" where
  "rowCellsOf courseY gcs = filter (sameRow courseY) gcs"

text \<open>\<open>rowCells.find(cell => Math.abs(cell.centerX - quarterX) < 30)\<close>.\<close>

definition matchingCell :: "gradeCell list \<Rightarrow> rat \<Rightarrow> gradeCell option" where
  "matchingCell rowCells quarterX = List.find (aligned quarterX) rowCells"

text \<open>The highlight test on the computed background colour.\<close>

definition highlighted :: "string \<Rightarrow> bool" where
  "highlighted bg =
     (str_includes bg ''255'' \<and> str_includes bg ''255'' \<and> \<not> str_includes bg ''255, 255, 255'')"

text \<open>
  One round of the loop over the four quarters: the state is \<open>gradeValues\<close> (a missing
  key stands for \<open>null\<close>) and \<open>currentQuarter\<close>.
\<close>

definition joinQuarter ::
  "(string \<rightharpoonup> rat) \<Rightarrow> gradeCell list \<Rightarrow> (string \<rightharpoonup> string) \<times> string option \<Rightarrow> string
     \<Rightarrow> (string \<rightharpoonup> string) \<times> string option" where
  "joinQuarter qx rowCells st q =
     (case qx q of
        None \<Rightarrow> st
      | Some quarterX \<Rightarrow>
          (case matchingCell rowCells quarterX of
             None \<Rightarrow> st
           | Some m \<Rightarrow>
               ((fst st)(q \<mapsto> cellText m),
                if highlighted (backgroundColor (element m)) then Some q else snd st)))"

text \<open>
  The fallback when no quarter header position is known: the four rightmost cells of the
  row, left to right. \<open>sort\<close> is stable, as \<open>sort_key\<close> is.
\<close>

definition rightmostFour :: "gradeCell list \<Rightarrow> gradeCell list" where
  "rightmostFour rowCells =
     (let sorted = sort_key cellX rowCells in drop (length sorted - 4) sorted)"

definition assignRightmost :: "gradeCell list \<Rightarrow> (string \<rightharpoonup> string) \<Rightarrow> (string \<rightharpoonup> string)" where
  "assignRightmost sortedCells gv =
     (let gv = (if 0 < length sortedCells then gv(''Q1'' \<mapsto> cellText (sortedCells ! 0)) else gv);
          gv = (if 1 < length sortedCells then gv(''Q2'' \<mapsto> cellText (sortedCells ! 1)) else gv);
          gv = (if 2 < length sortedCells then gv(''Q3'' \<mapsto> cellText (sortedCells ! 2)) else gv);
          gv = (if 3 < length sortedCells then gv(''Q4'' \<mapsto> cellText (sortedCells ! 3)) else gv)
      in gv)"

definition noQuarterPositions :: "(string \<rightharpoonup> rat) \<Rightarrow> bool" where
  "noQuarterPositions qx = list_all (\<lambda>q. qx q = None) quarters"

definition blockGrades :: "(string \<rightharpoonup> rat) \<Rightarrow> gradeCell list \<Rightarrow> courseBlock \<Rightarrow> QuarterGrade list" where
  "blockGrades qx gcs course =
     (let rowCells = rowCellsOf (blockY course) gcs;
          st = foldl (joinQuarter qx rowCells) (Map.empty, None) quarters;
          currentQuarter = snd st;
          gradeValues = (if noQuarterPositions qx
                         then assignRightmost (rightmostFour rowCells) (fst st)
                         else fst st)
      in [\<lparr>quarter = ''Q1'', letter = gradeValues ''Q1'', isCurrent = (currentQuarter = Some ''Q1'')\<rparr>,
          \<lparr>quarter = ''Q2'', letter = gradeValues ''Q2'', isCurrent = (currentQuarter = Some ''Q2'')\<rparr>,
          \<lparr>quarter = ''Q3'', letter = gradeValues ''Q3'',
            isCurrent = (currentQuarter = Some ''Q3'' \<or> currentQuarter = None)\<rparr>,
          \<lparr>quarter = ''Q4'', letter = gradeValues ''Q4'', isCurrent = (currentQuarter = Some ''Q4'')\<rparr>])"

text \<open>No quarter of \<open>gradeValues\<close> holds the empty string.\<close>

definition noEmptyValue :: "(string \<rightharpoonup> string) \<Rightarrow> bool" where
  "noEmptyValue gv = (\<forall>q. gv q \<noteq> Some [])"

subsection \<open>Merging blocks of the same name\<close>

text \<open>JavaScript truthiness of a \<open>string | null\<close>: \<open>null\<close> and the empty string are falsy.\<close>

definition truthy :: "string option \<Rightarrow> bool" where
  "truthy l = (case l of None \<Rightarrow> False | Some s \<Rightarrow> s \<noteq> [])"

text \<open>
  The body of \<open>for (let i = 0; i < 4; i++)\<close>: what it does to the entry \<open>e\<close> of the
  existing record, given the entry \<open>g\<close> of the new block at the same index.
\<close>

definition mergeEntry :: "QuarterGrade \<Rightarrow> QuarterGrade \<Rightarrow> QuarterGrade" where
  "mergeEntry e g =
     (let e = (if truthy (letter g) \<and> \<not> truthy (letter e) then e\<lparr>letter := letter g\<rparr> else e);
          e = (if isCurrent g then e\<lparr>isCurrent := True\<rparr> else e)
      in e)"

definition mergeAt :: "QuarterGrade list \<Rightarrow> QuarterGrade list \<Rightarrow> nat \<Rightarrow> QuarterGrade list" where
  "mergeAt gs existing i = existing[i := mergeEntry (existing ! i) (gs ! i)]"

definition mergeGrades :: "QuarterGrade list \<Rightarrow> QuarterGrade list \<Rightarrow> QuarterGrade list" where
  "mergeGrades existing gs = foldl (mergeAt gs) existing [0, 1, 2, 3]"

text \<open>
  \<open>results.courses.find(c => c.name === course.name)\<close>, then either the merge into the
  record found or the \<open>push\<close> of a new record.
\<close>

fun addBlock :: "SkywardCourse list \<Rightarrow> SkywardCourse \<Rightarrow> SkywardCourse list" where
  "addBlock [] c = [c]"
| "addBlock (e # es) c =
     (if name e = name c then e\<lparr>grades := mergeGrades (grades e) (grades c)\<rparr> # es
      else e # addBlock es c)"

definition blockCourse :: "(string \<rightharpoonup> rat) \<Rightarrow> gradeCell list \<Rightarrow> courseBlock \<Rightarrow> SkywardCourse" where
  "blockCourse qx gcs course =
     \<lparr>name = blockName course, period = blockPeriod course, teacher = blockTeacher course,
      grades = blockGrades qx gcs course\<rparr>"

definition strategy3 :: "document \<Rightarrow> SkywardCourse list" where
  "strategy3 d =
     foldl addBlock [] (map (blockCourse (quarterXPositions d) (allGradeCells d)) (courseData d))"

section \<open>Student name, school and the whole extraction\<close>

text \<open>
  \<open>/([A-Z]+\s+[A-Z]\.?\s+[A-Z]+)/\<close> tried at the head of a string. The classes that
  follow one another are disjoint, so each greedy run is maximal and there is one way to
  match: capitals, white space, one capital, an optional full stop, white space, capitals.
\<close>

definition matchNameAt :: "string \<Rightarrow> string option" where
  "matchNameAt s =
     (let u1 = takeWhile isUpper s; r1 = dropWhile isUpper s;
          w1 = takeWhile isSpace r1; r2 = dropWhile isSpace r1
      in if u1 = [] \<or> w1 = [] then None
         else (case r2 of
                 [] \<Rightarrow> None
               | c # r3 \<Rightarrow>
                   if \<not> isUpper c then None
                   else
                     let dot = takeWhile (\<lambda>ch. ch = CHR ''.'') (take 1 r3);
                         r4 = drop (length dot) r3;
                         w2 = takeWhile isSpace r4; r5 = dropWhile isSpace r4;
                         u2 = takeWhile isUpper r5
                     in if w2 = [] \<or> u2 = [] then None
                        else Some (u1 @ w1 @ [c] @ dot @ w2 @ u2)))"

text \<open>\<open>bodyText.match(...)\<close>: the leftmost position where the pattern matches.\<close>

fun nameMatch :: "string \<Rightarrow> string option" where
  "nameMatch [] = None"
| "nameMatch (c # cs) =
     (case matchNameAt (c # cs) of Some m \<Rightarrow> Some m | None \<Rightarrow> nameMatch cs)"

text \<open>
  \<open>/\(([^)]*(?:CANYON|HIGH)[^)]*)\)/i\<close>: the group is the text between an opening
  parenthesis and the next closing one, and has to contain one of the two words in any
  letter case. The result is the group of the leftmost match.
\<close>

fun schoolMatch :: "string \<Rightarrow> string option" where
  "schoolMatch [] = None"
| "schoolMatch (c # cs) =
     (let inner = takeWhile (\<lambda>ch. ch \<noteq> CHR '')'') cs in
      if c = CHR ''('' \<and> dropWhile (\<lambda>ch. ch \<noteq> CHR '')'') cs \<noteq> [] \<and>
         (str_includes (toLowerCase inner) ''canyon'' \<or> str_includes (toLowerCase inner) ''high'')
      then Some inner
      else schoolMatch cs)"

text \<open>
  The in-page script of \<open>extractGradesData\<close>: name and school from the body text, then the
  three strategies in order, each returning as soon as it has found a course. The list of
  missing assignments is never filled.
\<close>

definition extractScript :: "document \<Rightarrow> GradesData" where
  "extractScript d =
     (let results = \<lparr>courses = [], missingAssignments = [], studentName = [], school = []\<rparr>;
          results = (case nameMatch (bodyText d) of
                       Some m \<Rightarrow> results\<lparr>studentName := m\<rparr> | None \<Rightarrow> results);
          results = (case schoolMatch (bodyText d) of
                       Some m \<Rightarrow> results\<lparr>school := m\<rparr> | None \<Rightarrow> results)
      in if strategy1 d \<noteq> [] then results\<lparr>courses := strategy1 d\<rparr>
         else if strategy2 d \<noteq> [] then results\<lparr>courses := strategy2 d\<rparr>
         else results\<lparr>courses := strategy3 d\<rparr>)"

definition emptyGradesData :: GradesData where
  "emptyGradesData = \<lparr>courses = [], missingAssignments = [], studentName = [], school = []\<rparr>"

text \<open>
  \<open>extractGradesData(page)\<close>. The page is \<open>Some d\<close> when \<open>page.evaluate\<close> runs the script on
  the document \<open>d\<close>, and \<open>None\<close> when the call rejects (page closed, browser gone, no body);
  the \<open>catch\<close> then returns the empty result.
\<close>

definition extractGradesData :: "document option \<Rightarrow> GradesData" where
  "extractGradesData page =
     (case page of None \<Rightarrow> emptyGradesData | Some d \<Rightarrow> extractScript d)"

section \<open>The login decision of \<open>testConnection\<close>\<close>

text \<open>
  What the code reads from the browser after the submit click: the number of open pages,
  whether \<open>input[name="login"]\<close> is still in the page, the visible body text, the HTML
  source of the page, the text of the first element that looks like an error message
  (\<open>None\<close> when there is none or it is blank) and the URL.
\<close>

record LoginObservation =
  pageCount :: nat
  loginFormPresent :: bool
  innerText :: string
  pageContent :: string
  errorText :: "string option"
  finalUrl :: string

record TestResult =
  tSuccess :: bool
  tMessage :: "string option"
  tError :: "string option"

definition hasLoggedInContent :: "LoginObservation \<Rightarrow> bool" where
  "hasLoggedInContent ob =
     (let bodyLower = toLowerCase (innerText ob) in
      str_includes bodyLower ''gradebook'' \<or> str_includes bodyLower ''my students'' \<or>
      str_includes bodyLower ''attendance'' \<or> str_includes bodyLower ''message center'' \<or>
      str_includes bodyLower ''log out'' \<or> str_includes bodyLower ''logout'')"

definition hasGradeContent :: "LoginObservation \<Rightarrow> bool" where
  "hasGradeContent ob =
     (let body = toLowerCase (innerText ob) in
      str_includes body ''gradebook'' \<or> str_includes body ''my classes'' \<or>
      str_includes body ''welcome'')"

definition connectedResult :: TestResult where
  "connectedResult =
     \<lparr>tSuccess = True, tMessage = Some ''Connected successfully!'', tError = None\<rparr>"

definition badCredentialsResult :: TestResult where
  "badCredentialsResult =
     \<lparr>tSuccess = False, tMessage = None,
      tError = Some ''Login failed. Please double-check your username and password.''\<rparr>"

text \<open>The chain of tests at the end of \<open>testConnection\<close>, in the order of the code.\<close>

definition loginDecision :: "LoginObservation \<Rightarrow> TestResult" where
  "loginDecision ob =
     (if pageCount ob > 1 \<or> hasLoggedInContent ob \<or> \<not> loginFormPresent ob
      then connectedResult
      else if loginFormPresent ob \<and> \<not> hasLoggedInContent ob
      then badCredentialsResult
      else
        let lowerContent = toLowerCase (pageContent ob) in
        if str_includes lowerContent ''invalid'' \<or> str_includes lowerContent ''incorrect'' \<or>
           str_includes lowerContent ''failed'' \<or> str_includes lowerContent ''error''
        then \<lparr>tSuccess = False, tMessage = None,
              tError = (case errorText ob of
                          Some t \<Rightarrow> Some t
                        | None \<Rightarrow> Some ''Login failed. Please check your credentials.'')\<rparr>
        else if \<not> str_includes (finalUrl ob) ''seplog'' \<and> \<not> str_includes (finalUrl ob) ''login''
        then connectedResult
        else if hasGradeContent ob
        then connectedResult
        else \<lparr>tSuccess = False, tMessage = None,
              tError = Some ''Login may have failed. Please verify your credentials.''\<rparr>)"

section \<open>The browser session and \<open>scrapeGrades\<close>\<close>

text \<open>
  A browser process is a handle with a process number and a flag telling whether the
  process still answers. The client holds at most one handle. The field \<open>launched\<close> is
  book-keeping of the model: the number of processes \<open>puppeteer.launch\<close> has started so
  far, which numbers the next one.
\<close>

record Browser =
  pid :: nat
  alive :: bool

record SkywardPuppeteerClient =
  browser :: "Browser option"
  isOperationInProgress :: bool
  operationQueue :: "nat list"
  launched :: nat

definition newClient :: SkywardPuppeteerClient where
  "newClient = \<lparr>browser = None, isOperationInProgress = False, operationQueue = [], launched = 0\<rparr>"

text \<open>
  \<open>puppeteer.launch\<close>: a new process, or an exception when \<open>launchOk\<close> is false. The
  first component of the result is the message of the exception, if one was thrown.
\<close>

definition launch :: "bool \<Rightarrow> SkywardPuppeteerClient \<Rightarrow> string option \<times> SkywardPuppeteerClient" where
  "launch launchOk c =
     (if launchOk
      then (None, c\<lparr>browser := Some \<lparr>pid = Suc (launched c), alive = True\<rparr>,
                    launched := Suc (launched c)\<rparr>)
      else (Some ''Failed to launch the browser process'', c))"

text \<open>
  \<open>init()\<close>: a handle whose \<open>version()\<close> call answers is kept; one that does not answer is
  dropped; without a handle a browser is launched.
\<close>

definition init :: "bool \<Rightarrow> SkywardPuppeteerClient \<Rightarrow> string option \<times> SkywardPuppeteerClient" where
  "init launchOk c =
     (case browser c of
        Some b \<Rightarrow> if alive b then (None, c) else launch launchOk (c\<lparr>browser := None\<rparr>)
      | None \<Rightarrow> launch launchOk c)"

text \<open>\<open>ensureBrowser()\<close>: \<open>init()\<close>, then an exception if there is still no handle.\<close>

definition ensureBrowser :: "bool \<Rightarrow> SkywardPuppeteerClient \<Rightarrow> string option \<times> SkywardPuppeteerClient" where
  "ensureBrowser launchOk c =
     (case init launchOk c of
        (Some msg, c1) \<Rightarrow> (Some msg, c1)
      | (None, c1) \<Rightarrow>
          if browser c1 = None then (Some ''Failed to initialize browser'', c1) else (None, c1))"

text \<open>\<open>close()\<close>, the release of the session.\<close>

definition close :: "SkywardPuppeteerClient \<Rightarrow> SkywardPuppeteerClient" where
  "close c = (case browser c of Some b \<Rightarrow> c\<lparr>browser := None\<rparr> | None \<Rightarrow> c)"

text \<open>
  \<open>try { await this.browser?.close(); this.browser = null; } catch {}\<close>: when the close call
  throws, the assignment is skipped and the handle stays.
\<close>

definition closeBrowser :: "bool \<Rightarrow> SkywardPuppeteerClient \<Rightarrow> SkywardPuppeteerClient" where
  "closeBrowser closeOk c =
     (case browser c of
        None \<Rightarrow> c\<lparr>browser := None\<rparr>
      | Some b \<Rightarrow> if closeOk then c\<lparr>browser := None\<rparr> else c)"

text \<open>
  What happens between \<open>ensureBrowser()\<close> and the extraction (login, window switch,
  navigation, waiting): the login form is not found, or a call throws with a message, or
  the extraction is reached with a page on which the script can run (\<open>Some d\<close>) or not.
  None of these steps assigns \<open>this.browser\<close>.
\<close>

datatype pipeline = FormNotFound | Threw string | Reached "document option"

record run =
  launchOk :: bool
  outcome :: pipeline
  closeOk :: bool
  pageAtFallback :: "document option"

datatype ScrapeResult = Success GradesData | Failure string

fun success :: "ScrapeResult \<Rightarrow> bool" where
  "success (Success _) = True"
| "success (Failure _) = False"

definition nullGrades :: "QuarterGrade list" where
  "nullGrades =
     [\<lparr>quarter = ''Q1'', letter = None, isCurrent = False\<rparr>,
      \<lparr>quarter = ''Q2'', letter = None, isCurrent = False\<rparr>,
      \<lparr>quarter = ''Q3'', letter = None, isCurrent = True\<rparr>,
      \<lparr>quarter = ''Q4'', letter = None, isCurrent = False\<rparr>]"

text \<open>
  The in-page script of the last fallback: every three-row course block, found by the same
  three tests as in strategy 3, with four empty grades.
\<close>

definition fallbackScript :: "document \<Rightarrow> SkywardCourse list" where
  "fallbackScript d =
     map (\<lambda>b. \<lparr>name = blockName b, period = blockPeriod b, teacher = blockTeacher b,
                grades = nullGrades\<rparr>) (courseData d)"

text \<open>
  \<open>page.evaluate(...).catch(() => [])\<close> after the close: a page of a browser that has been
  closed no longer runs scripts, so the call rejects unless the client still holds a live
  browser; it also rejects when the page itself is gone (\<open>None\<close>).
\<close>

definition fallbackData :: "SkywardPuppeteerClient \<Rightarrow> document option \<Rightarrow> SkywardCourse list" where
  "fallbackData c page =
     (case browser c of
        None \<Rightarrow> []
      | Some b \<Rightarrow> if alive b then (case page of None \<Rightarrow> [] | Some d \<Rightarrow> fallbackScript d) else [])"

text \<open>The part of \<open>scrapeGrades\<close> from the extraction to the \<open>return\<close>.\<close>

definition finishScrape ::
  "run \<Rightarrow> document option \<Rightarrow> SkywardPuppeteerClient \<Rightarrow> ScrapeResult \<times> SkywardPuppeteerClient" where
  "finishScrape r page c =
     (let gradesData = extractGradesData page;
          c = closeBrowser (closeOk r) c
      in if courses gradesData = []
         then (let fb = fallbackData c (pageAtFallback r) in
               if fb \<noteq> []
               then (Success \<lparr>courses = fb, missingAssignments = missingAssignments gradesData,
                              studentName = studentName gradesData, school = school gradesData\<rparr>, c)
               else (Failure (''No grades found. Skyward may be blocking automated access. '' @
                              ''Try accessing Skyward directly.''), c))
         else (Success gradesData, c))"

text \<open>The \<open>catch\<close> block of \<open>scrapeGrades\<close>.\<close>

definition scrapeError ::
  "run \<Rightarrow> string \<Rightarrow> SkywardPuppeteerClient \<Rightarrow> ScrapeResult \<times> SkywardPuppeteerClient" where
  "scrapeError r msg c = (Failure (''Failed to scrape grades: '' @ msg), closeBrowser (closeOk r) c)"

text \<open>The \<open>try\<close> block with its \<open>catch\<close>, run by the caller that holds the turn.\<close>

definition scrapeBody :: "run \<Rightarrow> SkywardPuppeteerClient \<Rightarrow> ScrapeResult \<times> SkywardPuppeteerClient" where
  "scrapeBody r c =
     (case ensureBrowser (launchOk r) c of
        (Some msg, c1) \<Rightarrow> scrapeError r msg c1
      | (None, c1) \<Rightarrow>
          (case outcome r of
             FormNotFound \<Rightarrow> (Failure ''Could not find login form'', c1)
           | Threw msg \<Rightarrow> scrapeError r msg c1
           | Reached page \<Rightarrow> finishScrape r page c1))"

subsection \<open>The turn queue\<close>

text \<open>
  The queue holds one resume function per suspended caller; a caller is named by a number.
  \<open>waitForTurn\<close> returns the new client and whether the caller goes on at once.
\<close>

definition waitForTurn :: "nat \<Rightarrow> SkywardPuppeteerClient \<Rightarrow> SkywardPuppeteerClient \<times> bool" where
  "waitForTurn k c =
     (if \<not> isOperationInProgress c then (c\<lparr>isOperationInProgress := True\<rparr>, True)
      else (c\<lparr>operationQueue := operationQueue c @ [k]\<rparr>, False))"

text \<open>\<open>releaseTurn\<close> returns the new client and the caller it has resumed, if any.\<close>

definition releaseTurn :: "SkywardPuppeteerClient \<Rightarrow> SkywardPuppeteerClient \<times> nat option" where
  "releaseTurn c =
     (let c = c\<lparr>isOperationInProgress := False\<rparr> in
      case operationQueue c of
        [] \<Rightarrow> (c, None)
      | next # rest \<Rightarrow> (c\<lparr>operationQueue := rest, isOperationInProgress := True\<rparr>, Some next))"

text \<open>
  \<open>scrapeGrades\<close>: the call enters through \<open>waitForTurn\<close>; when it gets the turn at once
  it runs the body and ends with the \<open>releaseTurn\<close> of the \<open>finally\<close> block. \<open>None\<close> stands
  for a call that is suspended in the queue, which the next subsection deals with.
\<close>

definition scrapeGrades ::
  "run \<Rightarrow> SkywardPuppeteerClient \<Rightarrow> (ScrapeResult \<times> SkywardPuppeteerClient) option" where
  "scrapeGrades r c =
     (case waitForTurn 0 c of
        (c1, go) \<Rightarrow>
          if go
          then (let res = scrapeBody r c1 in Some (fst res, fst (releaseTurn (snd res))))
          else None)"

text \<open>The result and the client that a finished call leaves.\<close>

definition resultOf :: "(ScrapeResult \<times> SkywardPuppeteerClient) option \<Rightarrow> ScrapeResult option" where
  "resultOf x = map_option fst x"

definition clientOf ::
  "(ScrapeResult \<times> SkywardPuppeteerClient) option \<Rightarrow> SkywardPuppeteerClient option" where
  "clientOf x = map_option snd x"

subsection \<open>Several calls sharing the client\<close>











section \<open>Example pages and runs\<close>

definition white :: string where
  "white = ''rgb(255, 255, 255)''"

definition yellow :: string where
  "yellow = ''rgb(255, 255, 0)''"

text \<open>A cell of 40 by 20 pixels given by its tag, text, left edge, top edge and colour.\<close>

definition mkCell :: "tag \<Rightarrow> string \<Rightarrow> rat \<Rightarrow> rat \<Rightarrow> string \<Rightarrow> cell" where
  "mkCell tg s l t bg =
     \<lparr>tagName = tg, textContent = s, rectLeft = l, rectTop = t, rectWidth = 40,
      backgroundColor = bg\<rparr>"

definition mkRow :: "cell list \<Rightarrow> row" where
  "mkRow cs = \<lparr>rowTextContent = concat (map textContent cs), cells = cs\<rparr>"

text \<open>
  The page of the end-to-end scenario: one table with a labelled header row and two course
  rows; the Q3 cell of the second course is highlighted.
\<close>

definition fixtureTable :: table where
  "fixtureTable =
     \<lparr>rows =
        [mkRow [mkCell TH ''Course'' 0 0 white, mkCell TH ''Q1'' 280 0 white,
                mkCell TH ''Q2'' 380 0 white, mkCell TH ''Q3'' 480 0 white,
                mkCell TH ''Q4'' 580 0 white],
         mkRow [mkCell TD ''BIOLOGY'' 0 20 white, mkCell TD ''A'' 280 20 white,
                mkCell TD ''B'' 380 20 white, mkCell TD [] 480 20 white,
                mkCell TD [] 580 20 white],
         mkRow [mkCell TD ''ALGEBRA II'' 0 40 white, mkCell TD [] 280 40 white,
                mkCell TD [] 380 40 white, mkCell TD ''B+'' 480 40 yellow,
                mkCell TD [] 580 40 white]],
      tableTop = 0\<rparr>"

definition fixturePage :: document where
  "fixturePage =
     \<lparr>bodyText = ''Course Q1 Q2 Q3 Q4 Biology A B Algebra II B+'',
      tables = [fixtureTable],
      tds = concat (map tdCells (rows fixtureTable))\<rparr>"

text \<open>
  A page in the layout of strategy 3: a header table with the four quarter labels centred
  at 300, 400, 500 and 600 pixels, two course blocks of the same name at 100 and 300 pixels
  from the top, and one grade cell beside each: an \<open>A\<close> under Q1 in the first row, a
  highlighted \<open>B\<close> under Q2 in the second.
\<close>

definition quarterHeaderTable :: table where
  "quarterHeaderTable =
     \<lparr>rows = [mkRow [mkCell TH ''Q1'' 280 0 white, mkCell TH ''Q2'' 380 0 white,
                      mkCell TH ''Q3'' 480 0 white, mkCell TH ''Q4'' 580 0 white]],
      tableTop = 0\<rparr>"

definition blockTable :: "string \<Rightarrow> string \<Rightarrow> string \<Rightarrow> rat \<Rightarrow> table" where
  "blockTable nm per tch t =
     \<lparr>rows = [mkRow [mkCell TD nm 0 t white], mkRow [mkCell TD per 0 (t + 20) white],
              mkRow [mkCell TD tch 0 (t + 40) white]],
      tableTop = t\<rparr>"

definition gradeTable :: "cell \<Rightarrow> table" where
  "gradeTable c = \<lparr>rows = [mkRow [c]], tableTop = rectTop c\<rparr>"

definition mergeTables :: "table list" where
  "mergeTables =
     [quarterHeaderTable,
      blockTable ''BIOLOGY'' ''Period 1'' ''SMITH JOHN'' 100,
      gradeTable (mkCell TD ''A'' 280 105 white),
      blockTable ''BIOLOGY'' ''Period 5'' ''SMITH JOHN'' 300,
      gradeTable (mkCell TD ''B'' 380 305 yellow)]"

definition mergePage :: document where
  "mergePage =
     \<lparr>bodyText = ''Q1 Q2 Q3 Q4 BIOLOGY Period 1 SMITH JOHN A BIOLOGY Period 5 SMITH JOHN B'',
      tables = mergeTables,
      tds = concat (map (\<lambda>t. concat (map tdCells (rows t))) mergeTables)\<rparr>"

text \<open>The two records that strategy 3 builds from the two blocks of that page.\<close>

definition biologyP1 :: SkywardCourse where
  "biologyP1 =
     \<lparr>name = ''BIOLOGY'', period = ''Period 1'', teacher = ''SMITH JOHN'',
      grades = [\<lparr>quarter = ''Q1'', letter = Some ''A'', isCurrent = False\<rparr>,
                \<lparr>quarter = ''Q2'', letter = None, isCurrent = False\<rparr>,
                \<lparr>quarter = ''Q3'', letter = None, isCurrent = True\<rparr>,
                \<lparr>quarter = ''Q4'', letter = None, isCurrent = False\<rparr>]\<rparr>"

definition biologyP5 :: SkywardCourse where
  "biologyP5 =
     \<lparr>name = ''BIOLOGY'', period = ''Period 5'', teacher = ''SMITH JOHN'',
      grades = [\<lparr>quarter = ''Q1'', letter = None, isCurrent = False\<rparr>,
                \<lparr>quarter = ''Q2'', letter = Some ''B'', isCurrent = True\<rparr>,
                \<lparr>quarter = ''Q3'', letter = None, isCurrent = False\<rparr>,
                \<lparr>quarter = ''Q4'', letter = None, isCurrent = False\<rparr>]\<rparr>"

text \<open>A page in the academic-history layout: a course name and its grade in one row.\<close>

definition historyPage :: document where
  "historyPage =
     \<lparr>bodyText = ''English 10 A-'',
      tables = [\<lparr>rows = [mkRow [mkCell TD ''English 10'' 0 0 white, mkCell TD ''A-'' 100 0 white]],
                 tableTop = 0\<rparr>],
      tds = [mkCell TD ''English 10'' 0 0 white, mkCell TD ''A-'' 100 0 white]\<rparr>"

text \<open>Two grade cells of one row, both close to a header centred at 310 pixels.\<close>

definition nearCellA :: gradeCell where
  "nearCellA =
     \<lparr>cellText = ''A'', element = mkCell TD ''A'' 285 535 white, cellY = 535, cellX = 285,
      centerX = 305\<rparr>"

definition nearCellB :: gradeCell where
  "nearCellB =
     \<lparr>cellText = ''B'', element = mkCell TD ''B'' 295 535 white, cellY = 535, cellX = 295,
      centerX = 315\<rparr>"


text \<open>A course block 500 pixels from the top, and a header map that knows Q1 at 310.\<close>

definition blockAt500 :: courseBlock where
  "blockAt500 =
     \<lparr>blockName = ''BIOLOGY'', blockPeriod = ''Period 1'', blockTeacher = ''SMITH JOHN'',
      blockY = 500\<rparr>"

definition q1At310 :: "string \<rightharpoonup> rat" where
  "q1At310 = [''Q1'' \<mapsto> 310]"

text \<open>A page without any table whose visible text names a student and a school.\<close>

definition namePage :: document where
  "namePage = \<lparr>bodyText = ''JOHN Q SMITH (CANYON HIGH)'', tables = [], tds = []\<rparr>"

text \<open>A page whose only table is a menu: no quarter header, no course block, no grade.\<close>

definition menuPage :: document where
  "menuPage =
     \<lparr>bodyText = ''Home Calendar'',
      tables = [\<lparr>rows = [mkRow [mkCell TD ''Home'' 0 0 white, mkCell TD ''Calendar'' 60 0 white]],
                 tableTop = 0\<rparr>],
      tds = [mkCell TD ''Home'' 0 0 white, mkCell TD ''Calendar'' 60 0 white]\<rparr>"

text \<open>
  A run in which the page still shows its loading sign when the extraction script runs,
  and has one course block by the time the fallback script is called.
\<close>

definition loadingPage :: document where
  "loadingPage = \<lparr>bodyText = ''Loading...'', tables = [], tds = []\<rparr>"

definition blockPage :: document where
  "blockPage =
     \<lparr>bodyText = ''BIOLOGY Period 1 SMITH JOHN'',
      tables = [blockTable ''BIOLOGY'' ''Period 1'' ''SMITH JOHN'' 100],
      tds = concat (map tdCells (rows (blockTable ''BIOLOGY'' ''Period 1'' ''SMITH JOHN'' 100)))\<rparr>"

definition lateBlocksRun :: run where
  "lateBlocksRun =
     \<lparr>launchOk = True, outcome = Reached (Some loadingPage), closeOk = True,
      pageAtFallback = Some blockPage\<rparr>"

text \<open>A client whose browser, process 1, no longer answers.\<close>

definition deadClient :: SkywardPuppeteerClient where
  "deadClient =
     \<lparr>browser = Some \<lparr>pid = 1, alive = False\<rparr>, isOperationInProgress = False,
      operationQueue = [], launched = 1\<rparr>"

text \<open>A run that reaches the extraction on the page of the end-to-end scenario.\<close>

definition fixtureRun :: run where
  "fixtureRun =
     \<lparr>launchOk = True, outcome = Reached (Some fixturePage), closeOk = True,
      pageAtFallback = Some fixturePage\<rparr>"

text \<open>
  After the submit click: one window, no login form any more, no sign of a logged-in page,
  and an error message of the portal in the page.
\<close>

definition errorObservation :: LoginObservation where
  "errorObservation =
     \<lparr>pageCount = 1, loginFormPresent = False,
      innerText = ''Invalid login or password'',
      pageContent = ''<html><body><div class=error>Invalid login or password</div></body></html>'',
      errorText = Some ''Invalid login or password'',
      finalUrl = ''https://student.canyonsdistrict.org/scripts/wsisa.dll/WService=wsEAplus/seplog01.w''\<rparr>"

section \<open>Shape of the records each strategy builds\<close>

lemma labelledGrades_shape:
  "map quarter (labelledGrades qc cs) = quarters \<and>
   map isCurrent (labelledGrades qc cs) = [False, False, True, False]"
  by (simp add: labelledGrades_def quarters_def)

lemma labelledRow_shape:
  assumes "labelledRow qc cc r = Some c"
  shows "map quarter (grades c) = quarters \<and> map isCurrent (grades c) = [False, False, True, False]"
  using assms labelledGrades_shape[of qc "cells r"]
  by (auto simp: labelledRow_def Let_def split: if_splits)

lemma strategy1_shape:
  assumes "c \<in> set (strategy1 d)"
  shows "map quarter (grades c) = quarters \<and> map isCurrent (grades c) = [False, False, True, False]"
proof -
  from assms obtain t where "c \<in> set (labelledTable t)"
    by (auto simp: strategy1_def)
  then obtain qc cc r where "labelledRow qc cc r = Some c"
    by (auto simp: labelledTable_def Let_def map_filter_def split: if_splits)
  then show ?thesis by (rule labelledRow_shape)
qed

lemma historyRow_shape:
  assumes "historyRow r = Some c"
  shows "map quarter (grades c) = quarters \<and> map isCurrent (grades c) = [False, False, True, False]"
  using assms
  by (auto simp: historyRow_def Let_def quarters_def split: list.splits if_splits option.splits)

lemma strategy2_shape:
  assumes "c \<in> set (strategy2 d)"
  shows "map quarter (grades c) = quarters \<and> map isCurrent (grades c) = [False, False, True, False]"
proof -
  from assms obtain r where "historyRow r = Some c"
    by (auto simp: strategy2_def map_filter_def)
  then show ?thesis by (rule historyRow_shape)
qed

lemma blockGrades_quarters: "map quarter (blockGrades qx gcs b) = quarters"
  by (simp add: blockGrades_def Let_def quarters_def)

text \<open>\<open>currentQuarter\<close> is only ever set to a quarter whose matching cell is highlighted.\<close>

lemma joinQuarter_current:
  "snd (foldl (joinQuarter qx rc) st qs) = Some a \<Longrightarrow> snd st = Some a \<or> a \<in> set qs"
proof (induction qs arbitrary: st)
  case Nil
  then show ?case by simp
next
  case (Cons q qs)
  from Cons.IH[of "joinQuarter qx rc st q"] Cons.prems
  have "snd (joinQuarter qx rc st q) = Some a \<or> a \<in> set qs" by simp
  then show ?case
    by (auto simp: joinQuarter_def split: option.splits if_splits)
qed

lemma blockGrades_one_current:
  "length (filter isCurrent (blockGrades qx gcs b)) = 1"
proof (cases "snd (foldl (joinQuarter qx (rowCellsOf (blockY b) gcs)) (Map.empty, None) quarters)")
  case None
  then show ?thesis by (simp add: blockGrades_def Let_def)
next
  case (Some a)
  from joinQuarter_current[OF Some] have "a \<in> set quarters" by simp
  then show ?thesis using Some
    by (auto simp: blockGrades_def Let_def quarters_def)
qed

lemma blockGrades_default:
  "snd (foldl (joinQuarter qx (rowCellsOf (blockY b) gcs)) (Map.empty, None) quarters) = None
   \<Longrightarrow> map isCurrent (blockGrades qx gcs b) = [False, False, True, False]"
  by (simp add: blockGrades_def Let_def)

subsection \<open>The merge on arrays of four entries\<close>

lemma mergeEntry_quarter: "quarter (mergeEntry e g) = quarter e"
  by (simp add: mergeEntry_def Let_def)

lemma mergeEntry_isCurrent: "isCurrent (mergeEntry e g) = (isCurrent e \<or> isCurrent g)"
  by (simp add: mergeEntry_def Let_def)

lemma mergeEntry_letter:
  "letter (mergeEntry e g) =
     (if truthy (letter g) \<and> \<not> truthy (letter e) then letter g else letter e)"
  by (simp add: mergeEntry_def Let_def)

lemma mergeGrades_four:
  "mergeGrades [e0, e1, e2, e3] [g0, g1, g2, g3] =
     [mergeEntry e0 g0, mergeEntry e1 g1, mergeEntry e2 g2, mergeEntry e3 g3]"
  by (simp add: mergeGrades_def mergeAt_def)

lemma length_four:
  assumes "length xs = 4"
  obtains a b c d where "xs = [a, b, c, d]"
proof -
  from assms have "length xs = Suc (Suc (Suc (Suc 0)))" by simp
  then obtain a b c d where "xs = [a, b, c, d]"
    by (auto simp: length_Suc_conv)
  then show ?thesis by (rule that)
qed

lemma quarters_four:
  assumes "map quarter gs = quarters"
  obtains a b c d where "gs = [a, b, c, d]"
proof -
  have "length (map quarter gs) = 4" unfolding assms by (simp add: quarters_def)
  then have "length gs = 4" by simp
  then show ?thesis using that by (rule length_four)
qed

subsection \<open>Every record of the extraction is well shaped\<close>

lemma mergeGrades_shaped:
  assumes "map quarter e = quarters" "map quarter g = quarters"
  shows "map quarter (mergeGrades e g) = quarters"
    and "map isCurrent (mergeGrades e g) = map2 (\<or>) (map isCurrent e) (map isCurrent g)"
proof -
  from assms(1) obtain e0 e1 e2 e3 where e: "e = [e0, e1, e2, e3]" by (rule quarters_four)
  from assms(2) obtain g0 g1 g2 g3 where g: "g = [g0, g1, g2, g3]" by (rule quarters_four)
  show "map quarter (mergeGrades e g) = quarters"
    using assms(1) by (simp add: e g mergeGrades_four mergeEntry_quarter)
  show "map isCurrent (mergeGrades e g) = map2 (\<or>) (map isCurrent e) (map isCurrent g)"
    by (simp add: e g mergeGrades_four mergeEntry_isCurrent)
qed

lemma addBlock_shaped:
  assumes "list_all shaped es" "shaped c"
  shows "list_all shaped (addBlock es c)"
  using assms
proof (induction es)
  case Nil
  then show ?case by simp
next
  case (Cons e es)
  show ?case
  proof (cases "name e = name c")
    case True
    from Cons.prems have qe: "map quarter (grades e) = quarters"
      and qc: "map quarter (grades c) = quarters"
      and ce: "list_ex isCurrent (grades e)"
      by (simp_all add: shaped_def)
    from qe obtain e0 e1 e2 e3 where e: "grades e = [e0, e1, e2, e3]" by (rule quarters_four)
    from qc obtain g0 g1 g2 g3 where g: "grades c = [g0, g1, g2, g3]" by (rule quarters_four)
    have "shaped (e\<lparr>grades := mergeGrades (grades e) (grades c)\<rparr>)"
      using qe ce
      by (auto simp: shaped_def e g mergeGrades_four mergeEntry_quarter mergeEntry_isCurrent)
    then show ?thesis using True Cons.prems by simp
  next
    case False
    then show ?thesis using Cons by simp
  qed
qed

lemma foldl_addBlock_shaped:
  assumes "list_all shaped acc" "list_all shaped cs"
  shows "list_all shaped (foldl addBlock acc cs)"
  using assms
  by (induction cs arbitrary: acc) (simp_all add: addBlock_shaped)

lemma blockCourse_shaped: "shaped (blockCourse qx gcs b)"
proof -
  have "length (filter isCurrent (blockGrades qx gcs b)) = 1" by (rule blockGrades_one_current)
  then have "filter isCurrent (blockGrades qx gcs b) \<noteq> []" by auto
  then have "list_ex isCurrent (blockGrades qx gcs b)"
    by (simp add: list_ex_iff filter_empty_conv)
  then show ?thesis by (simp add: shaped_def blockCourse_def blockGrades_quarters)
qed

lemma strategy3_shaped: "list_all shaped (strategy3 d)"
  unfolding strategy3_def
  by (rule foldl_addBlock_shaped) (simp_all add: list_all_iff blockCourse_shaped)

lemma q3_flags_current:
  assumes "map isCurrent gs = [False, False, True, False]"
  shows "list_ex isCurrent gs"
proof -
  have "True \<in> set (map isCurrent gs)" by (simp add: assms)
  then show ?thesis by (auto simp: list_ex_iff)
qed

lemma extract_shaped: "list_all shaped (courses (extractGradesData page))"
proof (cases page)
  case None
  then show ?thesis by (simp add: extractGradesData_def emptyGradesData_def)
next
  case (Some d)
  have s1: "list_all shaped (strategy1 d)"
    using strategy1_shape[of _ d] by (simp add: list_all_iff shaped_def q3_flags_current)
  have s2: "list_all shaped (strategy2 d)"
    using strategy2_shape[of _ d] by (simp add: list_all_iff shaped_def q3_flags_current)
  show ?thesis using Some s1 s2 strategy3_shaped[of d]
    by (simp add: extractGradesData_def extractScript_def Let_def split: option.splits)
qed

lemma fallbackScript_shape:
  assumes "c \<in> set (fallbackScript d)"
  shows "map quarter (grades c) = quarters \<and> map isCurrent (grades c) = [False, False, True, False]"
  using assms by (auto simp: fallbackScript_def nullGrades_def quarters_def)

lemma fallbackScript_shaped: "list_all shaped (fallbackScript d)"
  by (auto simp: list_all_iff shaped_def fallbackScript_def nullGrades_def quarters_def)

lemma fallbackData_shaped: "list_all shaped (fallbackData cl page)"
  by (simp add: fallbackData_def fallbackScript_shaped split: option.splits)

lemma finishScrape_shaped:
  assumes "fst (finishScrape r page cl) = Success g"
  shows "list_all shaped (courses g)"
proof (cases "courses (extractGradesData page) = []")
  case True
  with assms have "courses g = fallbackData (closeBrowser (closeOk r) cl) (pageAtFallback r)"
    by (auto simp: finishScrape_def Let_def split: if_splits)
  then show ?thesis by (simp add: fallbackData_shaped)
next
  case False
  with assms have "g = extractGradesData page"
    by (simp add: finishScrape_def Let_def)
  then show ?thesis by (simp add: extract_shaped)
qed

lemma scrapeGrades_Some:
  assumes "scrapeGrades r c = Some (res, c')"
  shows "\<not> isOperationInProgress c"
    and "res = fst (scrapeBody r (fst (waitForTurn 0 c)))"
    and "c' = fst (releaseTurn (snd (scrapeBody r (fst (waitForTurn 0 c)))))"
  using assms
  by (auto simp: scrapeGrades_def waitForTurn_def Let_def split: if_splits)

lemma scrapeGrades_idle:
  assumes "\<not> isOperationInProgress c"
  shows "scrapeGrades r c =
           Some (fst (scrapeBody r (fst (waitForTurn 0 c))),
                 fst (releaseTurn (snd (scrapeBody r (fst (waitForTurn 0 c))))))"
  using assms by (simp add: scrapeGrades_def waitForTurn_def Let_def)

lemma scrapeGrades_shaped:
  assumes "scrapeGrades r cl = Some (Success g, cl')"
  shows "list_all shaped (courses g)"
proof -
  let ?c = "fst (waitForTurn 0 cl)"
  from scrapeGrades_Some(2)[OF assms] have b: "fst (scrapeBody r ?c) = Success g"
    by simp
  obtain m c1 where eb: "ensureBrowser (launchOk r) ?c = (m, c1)" by (cases "ensureBrowser (launchOk r) ?c")
  show ?thesis
  proof (cases m)
    case (Some msg)
    with b eb show ?thesis by (simp add: scrapeBody_def scrapeError_def)
  next
    case None
    with b eb show ?thesis
      by (cases "outcome r") (auto simp: scrapeBody_def scrapeError_def dest: finishScrape_shaped)
  qed
qed

lemma joinQuarter_highlight:
  "snd (foldl (joinQuarter qx rc) st qs) = Some a \<Longrightarrow>
     snd st = Some a \<or> (\<exists>m\<in>set rc. highlighted (backgroundColor (element m)))"
proof (induction qs arbitrary: st)
  case Nil
  then show ?case by simp
next
  case (Cons q qs)
  from Cons.IH[of "joinQuarter qx rc st q"] Cons.prems
  have "snd (joinQuarter qx rc st q) = Some a \<or> (\<exists>m\<in>set rc. highlighted (backgroundColor (element m)))"
    by simp
  then show ?case
    by (auto simp: joinQuarter_def matchingCell_def find_Some_iff split: option.splits if_splits)
qed

lemma blockGrades_no_highlight:
  assumes "\<forall>m\<in>set (rowCellsOf (blockY b) gcs). \<not> highlighted (backgroundColor (element m))"
  shows "map isCurrent (blockGrades qx gcs b) = [False, False, True, False]"
proof -
  have "snd (foldl (joinQuarter qx (rowCellsOf (blockY b) gcs)) (Map.empty, None) quarters) = None"
  proof (cases "snd (foldl (joinQuarter qx (rowCellsOf (blockY b) gcs)) (Map.empty, None) quarters)")
    case None
    then show ?thesis .
  next
    case (Some a)
    from joinQuarter_highlight[OF Some] assms show ?thesis by simp
  qed
  then show ?thesis by (rule blockGrades_default)
qed

lemma list_ex_filter_length: "list_ex P xs \<Longrightarrow> 1 \<le> length (filter P xs)"
  by (induction xs) auto

lemma all_less_four: "(\<forall>i<4. P i) = (P 0 \<and> P (Suc 0) \<and> P 2 \<and> P (3::nat))"
proof -
  have "\<And>i::nat. i < 4 \<longleftrightarrow> i = 0 \<or> i = Suc 0 \<or> i = 2 \<or> i = 3" by arith
  then show ?thesis by auto
qed

lemma mergeEntry_disjoint:
  assumes "letter e \<noteq> Some []" and "letter g \<noteq> Some []"
    and "letter e = None \<or> letter g = None"
  shows "letter (mergeEntry e g) = (if letter e \<noteq> None then letter e else letter g)"
    and "letter (mergeEntry e g) = letter (mergeEntry g e)"
  using assms
  by (cases "letter e"; cases "letter g"; simp add: mergeEntry_letter truthy_def)+

subsection \<open>Letters of strategy 3 are never empty strings\<close>

lemma gradeCellOf_text:
  assumes "gradeCellOf c = Some gc"
  shows "cellText gc \<noteq> []"
proof -
  let ?t = "stripSpaces (trim (textContent c))"
  from assms have m: "matchGradeExact ?t \<noteq> None" and g: "cellText gc = toUpperCase ?t"
    by (auto simp: gradeCellOf_def Let_def split: if_splits)
  from m have "?t \<noteq> []" by (cases ?t) auto
  with g show ?thesis by (simp add: toUpperCase_def)
qed

lemma allGradeCells_text:
  assumes "gc \<in> set (allGradeCells d)"
  shows "cellText gc \<noteq> []"
proof -
  from assms obtain c where "gradeCellOf c = Some gc"
    by (auto simp: allGradeCells_def map_filter_def)
  then show ?thesis by (rule gradeCellOf_text)
qed

lemma joinQuarter_values:
  assumes "\<forall>gc\<in>set rc. cellText gc \<noteq> []" and "noEmptyValue (fst st)"
  shows "noEmptyValue (fst (foldl (joinQuarter qx rc) st qs))"
  using assms(2)
proof (induction qs arbitrary: st)
  case Nil
  then show ?case by simp
next
  case (Cons q qs)
  have "noEmptyValue (fst (joinQuarter qx rc st q))"
    using Cons.prems assms(1)
    by (auto simp: joinQuarter_def matchingCell_def noEmptyValue_def find_Some_iff
             split: option.splits)
  from Cons.IH[OF this] show ?case by simp
qed

lemma assignRightmost_values:
  assumes "\<forall>gc\<in>set sc. cellText gc \<noteq> []" and "noEmptyValue gv"
  shows "noEmptyValue (assignRightmost sc gv)"
  using assms by (auto simp: assignRightmost_def noEmptyValue_def Let_def)

lemma rightmostFour_subset: "set (rightmostFour rc) \<subseteq> set rc"
proof -
  have "set (drop (length (sort_key cellX rc) - 4) (sort_key cellX rc)) \<subseteq> set (sort_key cellX rc)"
    by (rule set_drop_subset)
  then show ?thesis by (simp add: rightmostFour_def Let_def)
qed

lemma blockGrades_letters:
  assumes "\<forall>gc\<in>set gcs. cellText gc \<noteq> []" and "g \<in> set (blockGrades qx gcs b)"
  shows "letter g \<noteq> Some []"
proof -
  let ?rc = "rowCellsOf (blockY b) gcs"
  let ?st = "foldl (joinQuarter qx ?rc) (Map.empty, None) quarters"
  let ?gv = "if noQuarterPositions qx then assignRightmost (rightmostFour ?rc) (fst ?st) else fst ?st"
  have rc: "\<forall>gc\<in>set ?rc. cellText gc \<noteq> []" using assms(1) by (simp add: rowCellsOf_def)
  have "noEmptyValue (fst ?st)"
    by (rule joinQuarter_values[OF rc]) (simp add: noEmptyValue_def)
  moreover have "\<forall>gc\<in>set (rightmostFour ?rc). cellText gc \<noteq> []"
    using rc rightmostFour_subset[of ?rc] by blast
  ultimately have "noEmptyValue ?gv" by (simp add: assignRightmost_values)
  then have "\<forall>q. ?gv q \<noteq> Some []" by (simp add: noEmptyValue_def)
  with assms(2) show ?thesis by (auto simp: blockGrades_def Let_def)
qed

lemma strategy3_block_letters:
  assumes "g \<in> set (grades (blockCourse (quarterXPositions d) (allGradeCells d) b))"
  shows "letter g \<noteq> Some []"
  using assms blockGrades_letters[of "allGradeCells d" g "quarterXPositions d" b] allGradeCells_text[of _ d]
  by (simp add: blockCourse_def)

subsection \<open>What the position join computes\<close>








subsection \<open>Pages on which no strategy finds anything\<close>

lemma firstExactGrade_none:
  assumes "\<forall>c\<in>set cs. \<not> isGradeLetterCell c"
  shows "firstExactGrade cs = None"
  using assms by (induction cs) (auto simp: isGradeLetterCell_def split: option.splits)

lemma historyRow_none:
  assumes "\<forall>c\<in>set (cells r). \<not> isGradeLetterCell c"
  shows "historyRow r = None"
proof (cases "tdCells r")
  case Nil
  then show ?thesis by (simp add: historyRow_def)
next
  case (Cons c0 cs)
  note c = this
  show ?thesis
  proof (cases cs)
    case Nil
    with c show ?thesis by (simp add: historyRow_def)
  next
    case (Cons c1 rest)
    have "set (tdCells r) \<subseteq> set (cells r)" by (auto simp: tdCells_def)
    with assms c Cons have "\<forall>x\<in>set (c1 # rest). \<not> isGradeLetterCell x" by auto
    then have "firstExactGrade (c1 # rest) = None" by (rule firstExactGrade_none)
    with c Cons show ?thesis by (simp add: historyRow_def Let_def)
  qed
qed

lemma map_filter_none:
  assumes "\<forall>x\<in>set xs. f x = None"
  shows "List.map_filter f xs = []"
  using assms by (induction xs) (simp_all add: map_filter_simps)

lemma concat_all_nil:
  assumes "\<forall>x\<in>set xs. f x = []"
  shows "concat (map f xs) = []"
  using assms by (induction xs) simp_all

subsection \<open>The browser handle across a call\<close>

lemma waitForTurn_browser:
  "browser (fst (waitForTurn k c)) = browser c \<and> launched (fst (waitForTurn k c)) = launched c"
  by (simp add: waitForTurn_def)

lemma releaseTurn_browser:
  "browser (fst (releaseTurn c)) = browser c \<and> launched (fst (releaseTurn c)) = launched c"
  by (simp add: releaseTurn_def Let_def split: list.splits)

lemma closeBrowser_ok: "browser (closeBrowser True c) = None"
  by (simp add: closeBrowser_def split: option.splits)

lemma scrapeBody_closes:
  assumes "closeOk r" and "outcome r \<noteq> FormNotFound"
  shows "browser (snd (scrapeBody r c)) = None"
proof -
  obtain m c1 where eb: "ensureBrowser (launchOk r) c = (m, c1)"
    by (cases "ensureBrowser (launchOk r) c")
  show ?thesis
  proof (cases m)
    case (Some msg)
    with eb assms(1) show ?thesis
      by (simp add: scrapeBody_def scrapeError_def closeBrowser_ok)
  next
    case None
    with eb assms show ?thesis
      by (cases "outcome r")
         (simp_all add: scrapeBody_def scrapeError_def finishScrape_def Let_def closeBrowser_ok)
  qed
qed

lemma scrapeBody_form_not_found:
  assumes "launchOk r" and "outcome r = FormNotFound"
  shows "\<exists>b. browser (snd (scrapeBody r c)) = Some b \<and> alive b"
  using assms
  by (auto simp: scrapeBody_def ensureBrowser_def init_def launch_def split: option.splits)

lemma init_launches:
  assumes "browser c = None"
  shows "init True c = (None, c\<lparr>browser := Some \<lparr>pid = Suc (launched c), alive = True\<rparr>,
                                  launched := Suc (launched c)\<rparr>)"
  using assms by (simp add: init_def launch_def)

subsection \<open>The turn queue keeps its invariant\<close>




















section \<open>The end-to-end scenario\<close>

text \<open>
  Claim C1, as the code has it: on the page of the end-to-end scenario (one table with a
  labelled Q1-Q4 header row and the course rows BIOLOGY with A, B, none, none and
  ALGEBRA II with none, none, B+, none, the last one's Q3 cell highlighted) the extraction
  returns exactly two course records with those letters in those quarter positions.
  Strategy 1 marks the Q3 entry of every row as current and looks at no highlight, so
  \<open>isCurrent\<close> is true on the Q3 entry of both courses and false on every other entry.
\<close>

theorem fixture_extraction:
  "courses (extractGradesData (Some fixturePage)) =
     [\<lparr>name = ''BIOLOGY'', period = [], teacher = [],
       grades = [\<lparr>quarter = ''Q1'', letter = Some ''A'', isCurrent = False\<rparr>,
                 \<lparr>quarter = ''Q2'', letter = Some ''B'', isCurrent = False\<rparr>,
                 \<lparr>quarter = ''Q3'', letter = None, isCurrent = True\<rparr>,
                 \<lparr>quarter = ''Q4'', letter = None, isCurrent = False\<rparr>]\<rparr>,
      \<lparr>name = ''ALGEBRA II'', period = [], teacher = [],
       grades = [\<lparr>quarter = ''Q1'', letter = None, isCurrent = False\<rparr>,
                 \<lparr>quarter = ''Q2'', letter = None, isCurrent = False\<rparr>,
                 \<lparr>quarter = ''Q3'', letter = Some ''B+'', isCurrent = True\<rparr>,
                 \<lparr>quarter = ''Q4'', letter = None, isCurrent = False\<rparr>]\<rparr>]"
  by code_simp

text \<open>
  Claim C1 as stated asks for \<open>isCurrent\<close> on the Q3 entry of ALGEBRA II alone. On the
  page of the scenario the Q3 entry of the first record, BIOLOGY, is current too.
\<close>

theorem fixture_flags_counterexample:
  "name (hd (courses (extractGradesData (Some fixturePage)))) = ''BIOLOGY'' \<and>
   quarter (grades (hd (courses (extractGradesData (Some fixturePage)))) ! 2) = ''Q3'' \<and>
   isCurrent (grades (hd (courses (extractGradesData (Some fixturePage)))) ! 2)"
  by code_simp

section \<open>The four quarter entries\<close>

text \<open>
  Claim C10: every course record returned by strategy 1, strategy 2, strategy 3 (after
  merging) or the course-only fallback, hence every record of the extraction and of a
  successful \<open>scrapeGrades\<close>, has a grades array whose quarter labels are exactly
  Q1, Q2, Q3, Q4 in this order: four entries, none missing, repeated or out of place.
\<close>

theorem quarter_labels_fixed:
  "(\<forall>c\<in>set (strategy1 d). map quarter (grades c) = [''Q1'', ''Q2'', ''Q3'', ''Q4'']) \<and>
   (\<forall>c\<in>set (strategy2 d). map quarter (grades c) = [''Q1'', ''Q2'', ''Q3'', ''Q4'']) \<and>
   (\<forall>c\<in>set (strategy3 d). map quarter (grades c) = [''Q1'', ''Q2'', ''Q3'', ''Q4'']) \<and>
   (\<forall>c\<in>set (fallbackScript d). map quarter (grades c) = [''Q1'', ''Q2'', ''Q3'', ''Q4'']) \<and>
   (\<forall>c\<in>set (courses (extractGradesData page)).
      map quarter (grades c) = [''Q1'', ''Q2'', ''Q3'', ''Q4'']) \<and>
   (\<forall>g cl'. scrapeGrades r cl = Some (Success g, cl') \<longrightarrow>
      (\<forall>c\<in>set (courses g). map quarter (grades c) = [''Q1'', ''Q2'', ''Q3'', ''Q4'']))"
proof -
  have q: "quarters = [''Q1'', ''Q2'', ''Q3'', ''Q4'']" by (simp add: quarters_def)
  have 1: "\<forall>c\<in>set (strategy1 d). map quarter (grades c) = quarters"
    using strategy1_shape by blast
  have 2: "\<forall>c\<in>set (strategy2 d). map quarter (grades c) = quarters"
    using strategy2_shape by blast
  have 3: "\<forall>c\<in>set (strategy3 d). map quarter (grades c) = quarters"
    using strategy3_shaped[of d] by (simp add: list_all_iff shaped_def)
  have 4: "\<forall>c\<in>set (fallbackScript d). map quarter (grades c) = quarters"
    using fallbackScript_shape by blast
  have 5: "\<forall>c\<in>set (courses (extractGradesData page)). map quarter (grades c) = quarters"
    using extract_shaped[of page] by (simp add: list_all_iff shaped_def)
  have 6: "\<forall>g cl'. scrapeGrades r cl = Some (Success g, cl') \<longrightarrow>
      (\<forall>c\<in>set (courses g). map quarter (grades c) = quarters)"
    using scrapeGrades_shaped[of r cl] by (simp add: list_all_iff shaped_def)
  from 1 2 3 4 5 6 show ?thesis unfolding q by blast
qed

text \<open>
  The same on the example pages, one for each strategy and one for the fallback, each of
  which yields a record, and on the run that scrapes the page of the end-to-end scenario.
\<close>

theorem quarter_labels_fixed_witness:
  "map quarter (grades (hd (strategy1 fixturePage))) = [''Q1'', ''Q2'', ''Q3'', ''Q4''] \<and>
   map quarter (grades (hd (strategy2 historyPage))) = [''Q1'', ''Q2'', ''Q3'', ''Q4''] \<and>
   map quarter (grades (hd (strategy3 mergePage))) = [''Q1'', ''Q2'', ''Q3'', ''Q4''] \<and>
   map quarter (grades (hd (fallbackScript blockPage))) = [''Q1'', ''Q2'', ''Q3'', ''Q4''] \<and>
   map quarter (grades (hd (courses (extractGradesData (Some mergePage))))) =
     [''Q1'', ''Q2'', ''Q3'', ''Q4''] \<and>
   scrapeGrades fixtureRun newClient =
     Some (Success (extractGradesData (Some fixturePage)),
           \<lparr>browser = None, isOperationInProgress = False, operationQueue = [], launched = 1\<rparr>) \<and>
   map quarter (grades (hd (courses (extractGradesData (Some fixturePage))))) =
     [''Q1'', ''Q2'', ''Q3'', ''Q4'']"
proof -
  have m1: "hd (strategy1 fixturePage) \<in> set (strategy1 fixturePage)" by code_simp
  have m2: "hd (strategy2 historyPage) \<in> set (strategy2 historyPage)" by code_simp
  have m3: "hd (strategy3 mergePage) \<in> set (strategy3 mergePage)" by code_simp
  have m4: "hd (fallbackScript blockPage) \<in> set (fallbackScript blockPage)" by code_simp
  have m5: "hd (courses (extractGradesData (Some mergePage)))
              \<in> set (courses (extractGradesData (Some mergePage)))" by code_simp
  have m6: "hd (courses (extractGradesData (Some fixturePage)))
              \<in> set (courses (extractGradesData (Some fixturePage)))" by code_simp
  have s: "scrapeGrades fixtureRun newClient =
     Some (Success (extractGradesData (Some fixturePage)),
           \<lparr>browser = None, isOperationInProgress = False, operationQueue = [], launched = 1\<rparr>)"
    by code_simp
  from quarter_labels_fixed[of fixturePage] m1
  have 1: "map quarter (grades (hd (strategy1 fixturePage))) = [''Q1'', ''Q2'', ''Q3'', ''Q4'']"
    by blast
  from quarter_labels_fixed[of historyPage] m2
  have 2: "map quarter (grades (hd (strategy2 historyPage))) = [''Q1'', ''Q2'', ''Q3'', ''Q4'']"
    by blast
  from quarter_labels_fixed[of mergePage] m3
  have 3: "map quarter (grades (hd (strategy3 mergePage))) = [''Q1'', ''Q2'', ''Q3'', ''Q4'']"
    by blast
  from quarter_labels_fixed[of blockPage] m4
  have 4: "map quarter (grades (hd (fallbackScript blockPage))) = [''Q1'', ''Q2'', ''Q3'', ''Q4'']"
    by blast
  from quarter_labels_fixed[of _ "Some mergePage"] m5
  have 5: "map quarter (grades (hd (courses (extractGradesData (Some mergePage))))) =
     [''Q1'', ''Q2'', ''Q3'', ''Q4'']"
    by blast
  from quarter_labels_fixed[of _ _ fixtureRun newClient] s m6
  have 6: "map quarter (grades (hd (courses (extractGradesData (Some fixturePage))))) =
     [''Q1'', ''Q2'', ''Q3'', ''Q4'']"
    by blast
  from 1 2 3 4 5 s 6 show ?thesis by blast
qed

section \<open>The current quarter\<close>

text \<open>
  Claim C5, as the code has it. Every record of strategy 1, of strategy 2 and of the
  course-only fallback has exactly its Q3 entry marked current. The grades that strategy 3
  builds from one course block have exactly one current entry, and it is Q3 when no grade
  cell of the block's row is highlighted. The merge of two blocks of the same name marks an
  entry current when either block does, so a record of the extraction has at least one
  current entry, and a merged one may have more.
\<close>

theorem current_quarter_flags:
  "(\<forall>c\<in>set (strategy1 d). map isCurrent (grades c) = [False, False, True, False]) \<and>
   (\<forall>c\<in>set (strategy2 d). map isCurrent (grades c) = [False, False, True, False]) \<and>
   (\<forall>c\<in>set (fallbackScript d). map isCurrent (grades c) = [False, False, True, False]) \<and>
   length (filter isCurrent (blockGrades qx gcs b)) = 1 \<and>
   ((\<forall>m\<in>set (rowCellsOf (blockY b) gcs). \<not> highlighted (backgroundColor (element m))) \<longrightarrow>
      map isCurrent (blockGrades qx gcs b) = [False, False, True, False]) \<and>
   (map quarter e = quarters \<and> map quarter g = quarters \<longrightarrow>
      map isCurrent (mergeGrades e g) = map2 (\<or>) (map isCurrent e) (map isCurrent g)) \<and>
   (\<forall>c\<in>set (courses (extractGradesData page)). 1 \<le> length (filter isCurrent (grades c)))"
proof -
  have 1: "\<forall>c\<in>set (strategy1 d). map isCurrent (grades c) = [False, False, True, False]"
    using strategy1_shape by blast
  have 2: "\<forall>c\<in>set (strategy2 d). map isCurrent (grades c) = [False, False, True, False]"
    using strategy2_shape by blast
  have 3: "\<forall>c\<in>set (fallbackScript d). map isCurrent (grades c) = [False, False, True, False]"
    using fallbackScript_shape by blast
  have 4: "length (filter isCurrent (blockGrades qx gcs b)) = 1"
    by (rule blockGrades_one_current)
  have 5: "(\<forall>m\<in>set (rowCellsOf (blockY b) gcs). \<not> highlighted (backgroundColor (element m))) \<longrightarrow>
      map isCurrent (blockGrades qx gcs b) = [False, False, True, False]"
    using blockGrades_no_highlight by blast
  have 6: "map quarter e = quarters \<and> map quarter g = quarters \<longrightarrow>
      map isCurrent (mergeGrades e g) = map2 (\<or>) (map isCurrent e) (map isCurrent g)"
    using mergeGrades_shaped(2) by blast
  have 7: "\<forall>c\<in>set (courses (extractGradesData page)). 1 \<le> length (filter isCurrent (grades c))"
  proof
    fix c assume "c \<in> set (courses (extractGradesData page))"
    with extract_shaped[of page] have "list_ex isCurrent (grades c)"
      by (simp add: list_all_iff shaped_def)
    then show "1 \<le> length (filter isCurrent (grades c))" by (rule list_ex_filter_length)
  qed
  from 1 2 3 4 5 6 7 show ?thesis by blast
qed

text \<open>The same on the example pages, blocks and records.\<close>

theorem current_quarter_flags_witness:
  "map isCurrent (grades (hd (strategy1 fixturePage))) = [False, False, True, False] \<and>
   map isCurrent (grades (hd (strategy2 historyPage))) = [False, False, True, False] \<and>
   map isCurrent (grades (hd (fallbackScript blockPage))) = [False, False, True, False] \<and>
   length (filter isCurrent (blockGrades q1At310 [nearCellA, nearCellB] blockAt500)) = 1 \<and>
   map isCurrent (blockGrades q1At310 [nearCellA, nearCellB] blockAt500) =
     [False, False, True, False] \<and>
   map isCurrent (mergeGrades (grades biologyP1) (grades biologyP5)) =
     [False, True, True, False] \<and>
   1 \<le> length (filter isCurrent (grades (hd (courses (extractGradesData (Some mergePage))))))"
proof -
  have m1: "hd (strategy1 fixturePage) \<in> set (strategy1 fixturePage)" by code_simp
  have m2: "hd (strategy2 historyPage) \<in> set (strategy2 historyPage)" by code_simp
  have m3: "hd (fallbackScript blockPage) \<in> set (fallbackScript blockPage)" by code_simp
  have m5: "\<forall>m\<in>set (rowCellsOf (blockY blockAt500) [nearCellA, nearCellB]).
              \<not> highlighted (backgroundColor (element m))" by code_simp
  have m6: "map quarter (grades biologyP1) = quarters \<and> map quarter (grades biologyP5) = quarters"
    by code_simp
  have v6: "map2 (\<or>) (map isCurrent (grades biologyP1)) (map isCurrent (grades biologyP5)) =
              [False, True, True, False]" by code_simp
  have m7: "hd (courses (extractGradesData (Some mergePage)))
              \<in> set (courses (extractGradesData (Some mergePage)))" by code_simp
  note t = current_quarter_flags
  from t[of fixturePage] m1
  have 1: "map isCurrent (grades (hd (strategy1 fixturePage))) = [False, False, True, False]"
    by blast
  from t[of historyPage] m2
  have 2: "map isCurrent (grades (hd (strategy2 historyPage))) = [False, False, True, False]"
    by blast
  from t[of blockPage] m3
  have 3: "map isCurrent (grades (hd (fallbackScript blockPage))) = [False, False, True, False]"
    by blast
  from t[of _ q1At310 "[nearCellA, nearCellB]" blockAt500] m5
  have 45: "length (filter isCurrent (blockGrades q1At310 [nearCellA, nearCellB] blockAt500)) = 1 \<and>
     map isCurrent (blockGrades q1At310 [nearCellA, nearCellB] blockAt500) =
     [False, False, True, False]"
    by blast
  from t[of _ _ _ _ "grades biologyP1" "grades biologyP5"] m6
  have "map isCurrent (mergeGrades (grades biologyP1) (grades biologyP5)) =
     map2 (\<or>) (map isCurrent (grades biologyP1)) (map isCurrent (grades biologyP5))"
    by blast
  with v6 have 6: "map isCurrent (mergeGrades (grades biologyP1) (grades biologyP5)) =
     [False, True, True, False]" by simp
  from t[of _ _ _ _ _ _ "Some mergePage"] m7
  have 7: "1 \<le> length (filter isCurrent (grades (hd (courses (extractGradesData (Some mergePage))))))"
    by blast
  from 1 2 3 45 6 7 show ?thesis by blast
qed

text \<open>
  Claim C5 as stated asks for exactly one current entry in every record, also after a
  merge. On the page with two BIOLOGY blocks, the first without a highlight (Q3 by
  default) and the second with Q2 highlighted, the merged record has two current entries.
\<close>

theorem merged_flags_counterexample:
  "length (filter isCurrent (grades (hd (courses (extractGradesData (Some mergePage)))))) = 2"
  by code_simp

section \<open>Merging records of the same name\<close>

text \<open>
  Claim C6: take two course records of the same name, each with four grade entries whose
  letters are grade letters (never the empty string, which strategy 3 cannot produce, see
  \<open>strategy3_block_letters\<close>), and such that no quarter has a letter in both. Whichever
  record comes first, the second is merged into it, giving a single record; each quarter
  of the result carries the letter of the record that had one, so no letter is lost or
  overwritten, and the letters are the same for both orders.
\<close>

theorem merge_disjoint_slots:
  assumes "name ca = name cb"
    and "length (grades ca) = 4" and "length (grades cb) = 4"
    and "\<forall>g\<in>set (grades ca) \<union> set (grades cb). letter g \<noteq> Some []"
    and "\<forall>i<4. letter (grades ca ! i) = None \<or> letter (grades cb ! i) = None"
  shows "foldl addBlock [] [ca, cb] = [ca\<lparr>grades := mergeGrades (grades ca) (grades cb)\<rparr>] \<and>
         foldl addBlock [] [cb, ca] = [cb\<lparr>grades := mergeGrades (grades cb) (grades ca)\<rparr>] \<and>
         map letter (mergeGrades (grades ca) (grades cb)) =
           map letter (mergeGrades (grades cb) (grades ca)) \<and>
         (\<forall>i<4. letter (mergeGrades (grades ca) (grades cb) ! i) =
                  (if letter (grades ca ! i) \<noteq> None then letter (grades ca ! i)
                   else letter (grades cb ! i)))"
proof -
  from assms(2) obtain a0 a1 a2 a3 where a: "grades ca = [a0, a1, a2, a3]" by (rule length_four)
  from assms(3) obtain b0 b1 b2 b3 where b: "grades cb = [b0, b1, b2, b3]" by (rule length_four)
  from assms(4) have na: "letter a0 \<noteq> Some []" "letter a1 \<noteq> Some []" "letter a2 \<noteq> Some []"
    "letter a3 \<noteq> Some []"
    and nb: "letter b0 \<noteq> Some []" "letter b1 \<noteq> Some []" "letter b2 \<noteq> Some []"
    "letter b3 \<noteq> Some []"
    by (simp_all add: a b)
  from assms(5) have d: "letter a0 = None \<or> letter b0 = None" "letter a1 = None \<or> letter b1 = None"
    "letter a2 = None \<or> letter b2 = None" "letter a3 = None \<or> letter b3 = None"
    by (simp_all add: all_less_four a b)
  note m0 = mergeEntry_disjoint[OF na(1) nb(1) d(1)]
  note m1 = mergeEntry_disjoint[OF na(2) nb(2) d(2)]
  note m2 = mergeEntry_disjoint[OF na(3) nb(3) d(3)]
  note m3 = mergeEntry_disjoint[OF na(4) nb(4) d(4)]
  have 1: "foldl addBlock [] [ca, cb] = [ca\<lparr>grades := mergeGrades (grades ca) (grades cb)\<rparr>]"
    using assms(1) by simp
  have 2: "foldl addBlock [] [cb, ca] = [cb\<lparr>grades := mergeGrades (grades cb) (grades ca)\<rparr>]"
    using assms(1) by simp
  have 3: "map letter (mergeGrades (grades ca) (grades cb)) =
           map letter (mergeGrades (grades cb) (grades ca))"
    unfolding a b mergeGrades_four using m0(2) m1(2) m2(2) m3(2) by simp
  have 4: "\<forall>i<4. letter (mergeGrades (grades ca) (grades cb) ! i) =
                  (if letter (grades ca ! i) \<noteq> None then letter (grades ca ! i)
                   else letter (grades cb ! i))"
    unfolding a b mergeGrades_four all_less_four using m0(1) m1(1) m2(1) m3(1)
    by (simp only: nth_Cons_0 nth_Cons_Suc nth_Cons_numeral pred_numeral_simps
                   Num.BitM.simps numeral_One[symmetric] One_nat_def[symmetric])
       simp
  from 1 2 3 4 show ?thesis by blast
qed

text \<open>The two BIOLOGY records, with A in Q1 and B in Q2, merged in either order.\<close>

theorem merge_disjoint_slots_witness:
  "map letter (grades (hd (foldl addBlock [] [biologyP1, biologyP5]))) =
     [Some ''A'', Some ''B'', None, None] \<and>
   map letter (grades (hd (foldl addBlock [] [biologyP5, biologyP1]))) =
     [Some ''A'', Some ''B'', None, None]"
proof -
  have h1: "name biologyP1 = name biologyP5" by code_simp
  have h2: "length (grades biologyP1) = 4" by code_simp
  have h3: "length (grades biologyP5) = 4" by code_simp
  have h4: "\<forall>g\<in>set (grades biologyP1) \<union> set (grades biologyP5). letter g \<noteq> Some []"
    by (simp add: biologyP1_def biologyP5_def)
  have h5: "\<forall>i<4. letter (grades biologyP1 ! i) = None \<or> letter (grades biologyP5 ! i) = None"
    by (simp add: all_less_four biologyP1_def biologyP5_def)
  note t = merge_disjoint_slots[OF h1 h2 h3 h4 h5]
  have v: "map (\<lambda>i. if letter (grades biologyP1 ! i) \<noteq> None then letter (grades biologyP1 ! i)
                   else letter (grades biologyP5 ! i)) [0, Suc 0, 2, 3] = [Some ''A'', Some ''B'', None, None]"
    by (simp add: biologyP1_def biologyP5_def)
  from t have l: "length (mergeGrades (grades biologyP1) (grades biologyP5)) = 4"
    by (simp add: biologyP1_def biologyP5_def mergeGrades_four)
  from l obtain m0 m1 m2 m3 where m: "mergeGrades (grades biologyP1) (grades biologyP5) = [m0, m1, m2, m3]"
    by (rule length_four)
  from t have "\<forall>i<4. letter (mergeGrades (grades biologyP1) (grades biologyP5) ! i) =
                  (if letter (grades biologyP1 ! i) \<noteq> None then letter (grades biologyP1 ! i)
                   else letter (grades biologyP5 ! i))" by blast
  then have "map letter (mergeGrades (grades biologyP1) (grades biologyP5)) = [Some ''A'', Some ''B'', None, None]"
    using v by (simp add: all_less_four m)
  with t show ?thesis by simp
qed

section \<open>The tolerances of the position join\<close>




section \<open>The empty result\<close>

text \<open>
  Claim C8, as the code has it. On a page where no table has a quarter header row, no table
  is a course block and no table cell holds a grade letter, the extraction returns no
  course and no missing assignment. The student name and the school are whatever the two
  patterns find in the visible text of the page, and are empty when they find nothing.
  A page on which the script cannot run gives the all-empty result; nothing is thrown.
\<close>

theorem graceful_empty:
  assumes "\<forall>t\<in>set (tables d). \<not> hasQuarterHeaders t \<and> courseBlockOf t = None"
    and "\<forall>t\<in>set (tables d). \<forall>r\<in>set (rows t). \<forall>c\<in>set (cells r). \<not> isGradeLetterCell c"
  shows "extractGradesData (Some d) =
           \<lparr>courses = [], missingAssignments = [],
            studentName = (case nameMatch (bodyText d) of Some m \<Rightarrow> m | None \<Rightarrow> []),
            school = (case schoolMatch (bodyText d) of Some m \<Rightarrow> m | None \<Rightarrow> [])\<rparr> \<and>
         extractGradesData None =
           \<lparr>courses = [], missingAssignments = [], studentName = [], school = []\<rparr>"
proof -
  have s1: "strategy1 d = []"
    unfolding strategy1_def using assms(1)
    by (intro concat_all_nil) (simp add: labelledTable_def)
  have s2: "strategy2 d = []"
    unfolding strategy2_def using assms(2)
    by (intro concat_all_nil) (simp add: map_filter_none historyRow_none)
  have "courseData d = []"
    unfolding courseData_def using assms(1) by (intro map_filter_none) simp
  then have s3: "strategy3 d = []" by (simp add: strategy3_def)
  show ?thesis
    by (simp add: extractGradesData_def extractScript_def emptyGradesData_def Let_def s1 s2 s3
             split: option.splits)
qed

text \<open>On the page with only a menu table all four fields are empty.\<close>

theorem graceful_empty_witness:
  "extractGradesData (Some menuPage) =
     \<lparr>courses = [], missingAssignments = [], studentName = [], school = []\<rparr>"
proof -
  have h1: "\<forall>t\<in>set (tables menuPage). \<not> hasQuarterHeaders t \<and> courseBlockOf t = None"
    by code_simp
  have h2: "\<forall>t\<in>set (tables menuPage). \<forall>r\<in>set (rows t). \<forall>c\<in>set (cells r).
              \<not> isGradeLetterCell c"
    by code_simp
  have n: "nameMatch (bodyText menuPage) = None" by code_simp
  have sc: "schoolMatch (bodyText menuPage) = None" by code_simp
  from graceful_empty[OF h1 h2] n sc show ?thesis by simp
qed

text \<open>
  Claim C8 as stated asks for an empty student name and school on every such page. A page
  without any table or cell whose text reads \<open>JOHN Q SMITH (CANYON HIGH)\<close> yields both.
\<close>

theorem name_without_tables_counterexample:
  "tables namePage = [] \<and> tds namePage = [] \<and>
   extractGradesData (Some namePage) =
     \<lparr>courses = [], missingAssignments = [], studentName = ''JOHN Q SMITH'',
      school = ''CANYON HIGH''\<rparr>"
  by code_simp

section \<open>The login decision\<close>

text \<open>
  The first test of the chain succeeds whenever the login form is gone, and the second
  takes every state in which it is still there: no state reaches the tests that follow.
\<close>

lemma loginDecision_two_outcomes:
  "loginDecision ob = connectedResult \<or> loginDecision ob = badCredentialsResult"
  by (simp add: loginDecision_def)

text \<open>
  Claim C3 has a state that reaches the error-text test and is reported as a failure with
  the text found in the page. The state that the stated order sends there (one window, no
  logged-in content, no login form, an error message in the page) is reported by the code
  as a successful connection.
\<close>

theorem error_page_reported_connected:
  "loginDecision errorObservation =
     \<lparr>tSuccess = True, tMessage = Some ''Connected successfully!'', tError = None\<rparr>"
  by code_simp

section \<open>The course-only fallback\<close>

text \<open>
  Once the browser has been closed the fallback script cannot run: a run that reaches the
  extraction and finds no course always ends in the failure message.
\<close>

lemma closed_browser_no_fallback:
  assumes "launchOk r" and "closeOk r" and "outcome r = Reached page"
    and "courses (extractGradesData page) = []" and "\<not> isOperationInProgress c"
  shows "resultOf (scrapeGrades r c) =
           Some (Failure (''No grades found. Skyward may be blocking automated access. '' @
                          ''Try accessing Skyward directly.''))"
proof -
  let ?c = "fst (waitForTurn 0 c)"
  obtain m c1 where eb: "ensureBrowser (launchOk r) ?c = (m, c1)"
    by (cases "ensureBrowser (launchOk r) ?c")
  have m: "m = None" using eb assms(1)
    by (auto simp: ensureBrowser_def init_def launch_def split: option.splits if_splits)
  have "browser (closeBrowser (closeOk r) c1) = None"
    using assms(2) by (simp add: closeBrowser_def split: option.splits)
  then have "fallbackData (closeBrowser (closeOk r) c1) (pageAtFallback r) = []"
    by (simp add: fallbackData_def)
  then show ?thesis using eb m assms(3,4)
    by (simp add: scrapeGrades_idle[OF assms(5)] resultOf_def scrapeBody_def finishScrape_def
                  Let_def)
qed

text \<open>
  Claim C2 has \<open>scrapeGrades\<close> succeed with the course blocks that the fallback scan finds
  when the strategies found nothing. In the run where the page has no table at extraction
  time and one BIOLOGY block afterwards, the scan would find the block, and the code
  returns the failure message, because the browser is closed before the fallback script
  is called.
\<close>

theorem late_blocks_lost:
  "courses (extractGradesData (Some loadingPage)) = [] \<and>
   map name (fallbackScript blockPage) = [''BIOLOGY''] \<and>
   resultOf (scrapeGrades lateBlocksRun newClient) =
     Some (Failure ''No grades found. Skyward may be blocking automated access. Try accessing Skyward directly.'')"
  by code_simp

section \<open>The life of the browser session\<close>

text \<open>
  Claim C4, as the code has it. \<open>init\<close> launches a browser when the client holds none and
  keeps a handle that still answers, so the session is created on first use and \<open>init\<close>
  reuses it while it is alive. \<open>scrapeGrades\<close> does not leave it alive: when \<open>close()\<close>
  resolves, every path past the login form (the extraction, with or without courses, and
  the \<open>catch\<close> block) ends with no browser in the client, and the next \<open>init\<close> launches
  a new process. Only the return for a missing login form keeps the browser. \<open>close\<close>
  discards the handle and does nothing the second time.
\<close>

theorem session_lifecycle:
  "(browser c = None \<longrightarrow>
      init True c = (None, c\<lparr>browser := Some \<lparr>pid = Suc (launched c), alive = True\<rparr>,
                              launched := Suc (launched c)\<rparr>)) \<and>
   (browser c = Some b \<and> alive b \<longrightarrow> init ok c = (None, c)) \<and>
   (browser c = Some b \<and> \<not> alive b \<longrightarrow>
      init True c = (None, c\<lparr>browser := Some \<lparr>pid = Suc (launched c), alive = True\<rparr>,
                              launched := Suc (launched c)\<rparr>)) \<and>
   (\<not> isOperationInProgress c \<longrightarrow> scrapeGrades r c \<noteq> None) \<and>
   (closeOk r \<and> outcome r \<noteq> FormNotFound \<and> scrapeGrades r c = Some (res, c') \<longrightarrow>
      browser c' = None \<and> launched (snd (init True c')) = Suc (launched c')) \<and>
   (launchOk r \<and> outcome r = FormNotFound \<and> scrapeGrades r c = Some (res, c') \<longrightarrow>
      (\<exists>b'. browser c' = Some b' \<and> alive b')) \<and>
   browser (close c) = None \<and> close (close c) = close c"
proof -
  have 1: "browser c = None \<longrightarrow>
      init True c = (None, c\<lparr>browser := Some \<lparr>pid = Suc (launched c), alive = True\<rparr>,
                              launched := Suc (launched c)\<rparr>)"
    using init_launches by blast
  have 2: "browser c = Some b \<and> alive b \<longrightarrow> init ok c = (None, c)"
    by (simp add: init_def)
  have relaunch: "browser c = Some b \<and> \<not> alive b \<longrightarrow>
      init True c = (None, c\<lparr>browser := Some \<lparr>pid = Suc (launched c), alive = True\<rparr>,
                              launched := Suc (launched c)\<rparr>)"
    by (simp add: init_def launch_def)
  have 3: "\<not> isOperationInProgress c \<longrightarrow> scrapeGrades r c \<noteq> None"
    by (simp add: scrapeGrades_idle)
  have sg: "browser c' = browser (snd (scrapeBody r (fst (waitForTurn 0 c))))"
    if "scrapeGrades r c = Some (res, c')"
    using scrapeGrades_Some(3)[OF that] by (simp add: releaseTurn_browser)
  have 4: "closeOk r \<and> outcome r \<noteq> FormNotFound \<and> scrapeGrades r c = Some (res, c') \<longrightarrow>
      browser c' = None \<and> launched (snd (init True c')) = Suc (launched c')"
  proof
    assume h: "closeOk r \<and> outcome r \<noteq> FormNotFound \<and> scrapeGrades r c = Some (res, c')"
    then have n: "browser c' = None"
      using sg scrapeBody_closes[of r "fst (waitForTurn 0 c)"] by simp
    from init_launches[OF n]
    show "browser c' = None \<and> launched (snd (init True c')) = Suc (launched c')"
      using n by simp
  qed
  have 5: "launchOk r \<and> outcome r = FormNotFound \<and> scrapeGrades r c = Some (res, c') \<longrightarrow>
      (\<exists>b'. browser c' = Some b' \<and> alive b')"
    using sg scrapeBody_form_not_found[of r "fst (waitForTurn 0 c)"] by simp
  have 6: "browser (close c) = None \<and> close (close c) = close c"
    by (simp add: close_def split: option.splits)
  from 1 2 relaunch 3 4 5 6 show ?thesis by blast
qed

text \<open>
  On a new client: the first \<open>init\<close> launches process 1 and a second \<open>init\<close> changes
  nothing; a handle that no longer answers is replaced by process 2; the run on the page of the end-to-end scenario returns and leaves no browser,
  and \<open>init\<close> then counts a second launch; a run without login form keeps process 1.
\<close>

theorem session_lifecycle_witness:
  "fst (init True newClient) = None \<and>
   browser (snd (init True newClient)) = Some \<lparr>pid = 1, alive = True\<rparr> \<and>
   init True (snd (init True newClient)) = (None, snd (init True newClient)) \<and>
   browser (snd (init True deadClient)) = Some \<lparr>pid = 2, alive = True\<rparr> \<and>
   scrapeGrades fixtureRun newClient \<noteq> None \<and>
   map_option browser (clientOf (scrapeGrades fixtureRun newClient)) = Some None \<and>
   map_option launched (clientOf (scrapeGrades fixtureRun newClient)) = Some 1 \<and>
   map_option browser (clientOf (scrapeGrades (fixtureRun\<lparr>outcome := FormNotFound\<rparr>) newClient)) =
     Some (Some \<lparr>pid = 1, alive = True\<rparr>)"
proof -
  note t = session_lifecycle
  have b0: "browser newClient = None" by (simp add: newClient_def)
  from t[where c = newClient] b0
  have i: "init True newClient =
             (None, newClient\<lparr>browser := Some \<lparr>pid = Suc (launched newClient), alive = True\<rparr>,
                              launched := Suc (launched newClient)\<rparr>)"
    by blast
  then have 1: "fst (init True newClient) = None"
    and 2: "browser (snd (init True newClient)) = Some \<lparr>pid = 1, alive = True\<rparr>"
    by (simp_all add: newClient_def)
  from 2 t[where c = "snd (init True newClient)" and b = "\<lparr>pid = 1, alive = True\<rparr>" and ok = True]
  have 3: "init True (snd (init True newClient)) = (None, snd (init True newClient))"
    by simp
  have bd: "browser deadClient = Some \<lparr>pid = 1, alive = False\<rparr> \<and>
            \<not> alive \<lparr>pid = 1, alive = False\<rparr>"
    by (simp add: deadClient_def)
  from t[where c = deadClient and b = "\<lparr>pid = 1, alive = False\<rparr>"] bd
  have "init True deadClient =
          (None, deadClient\<lparr>browser := Some \<lparr>pid = Suc (launched deadClient), alive = True\<rparr>,
                            launched := Suc (launched deadClient)\<rparr>)"
    by blast
  then have dead: "browser (snd (init True deadClient)) = Some \<lparr>pid = 2, alive = True\<rparr>"
    by (simp add: deadClient_def)
  have idle: "\<not> isOperationInProgress newClient" by (simp add: newClient_def)
  from t[where c = newClient and r = fixtureRun] idle
  have 4: "scrapeGrades fixtureRun newClient \<noteq> None" by blast
  then obtain res c' where sc: "scrapeGrades fixtureRun newClient = Some (res, c')" by auto
  have h: "closeOk fixtureRun \<and> outcome fixtureRun \<noteq> FormNotFound"
    by (simp add: fixtureRun_def)
  from t[where r = fixtureRun and c = newClient and res = res and c' = c'] h sc
  have "browser c' = None" by blast
  with sc have 5: "map_option browser (clientOf (scrapeGrades fixtureRun newClient)) = Some None"
    by (simp add: clientOf_def)
  have 6: "map_option launched (clientOf (scrapeGrades fixtureRun newClient)) = Some 1"
    by code_simp
  let ?r = "fixtureRun\<lparr>outcome := FormNotFound\<rparr>"
  have h7: "launchOk ?r \<and> outcome ?r = FormNotFound" by (simp add: fixtureRun_def)
  from t[where c = newClient and r = ?r] idle
  have "scrapeGrades ?r newClient \<noteq> None" by blast
  then obtain res2 c2 where sc2: "scrapeGrades ?r newClient = Some (res2, c2)" by auto
  from t[where r = ?r and c = newClient and res = res2 and c' = c2] h7 sc2
  obtain b' where b': "browser c2 = Some b'" "alive b'" by blast
  have "map_option (map_option pid) (map_option browser (clientOf (scrapeGrades ?r newClient))) =
          Some (Some 1)" by code_simp
  with sc2 b' have "pid b' = 1" by (simp add: clientOf_def)
  with b' have "browser c2 = Some \<lparr>pid = 1, alive = True\<rparr>" by (cases b') simp
  with sc2 have 7: "map_option browser (clientOf (scrapeGrades ?r newClient)) =
     Some (Some \<lparr>pid = 1, alive = True\<rparr>)" by (simp add: clientOf_def)
  from 1 2 3 dead 4 5 6 7 show ?thesis by blast
qed

text \<open>
  Claim C4 as stated has the browser alive after a successful \<open>scrapeGrades\<close> and reused
  by the next acquire. The run on the page of the end-to-end scenario succeeds, leaves the
  client without a browser, and the next \<open>init\<close> starts process number 2.
\<close>

theorem browser_closed_after_success_counterexample:
  "map_option success (resultOf (scrapeGrades fixtureRun newClient)) = Some True \<and>
   map_option browser (clientOf (scrapeGrades fixtureRun newClient)) = Some None \<and>
   map_option (browser \<circ> snd \<circ> init True) (clientOf (scrapeGrades fixtureRun newClient)) =
     Some (Some \<lparr>pid = 2, alive = True\<rparr>)"
  by code_simp

section \<open>Calls are served one at a time, in order\<close>



end
